theory Spec2Isabelle
  imports Main "HOL-Library.Word"
begin

unbundle bit_operations_syntax

section \<open>The type model (type.h, type.c)\<close>

text \<open>
  The C translator keeps every type as a heap object \<^verbatim>\<open>struct Type\<close>. The embedding
  keeps the fields the verified functions read: kind, size and alignment in bytes, the
  unsigned flag, qualifiers, the inline flag, the element type and length of an array,
  the member list of a struct or union, and the return type of a function. A C
  \<^verbatim>\<open>int\<close> field is an integer in the 32-bit range. Where the source computes a size or
  an offset from values of the translated program (\<^verbatim>\<open>type_array\<close>, the layout of
  structs and unions), the result of each \<^verbatim>\<open>int\<close> operation is reduced to that range by
  \<open>to_s32\<close>: two's complement wrap-around, which is what the usual targets compute
  where C leaves the overflow undefined.
\<close>

definition to_s32 :: "int \<Rightarrow> int" where
  "to_s32 v = (v + 2 ^ 31) mod 2 ^ 32 - 2 ^ 31"

datatype TypeKind =
    TY_VOID | TY_BOOL | TY_CHAR | TY_SHORT | TY_INT | TY_LONG | TY_LLONG
  | TY_FLOAT | TY_DOUBLE | TY_LDOUBLE | TY_ENUM | TY_PTR | TY_ARRAY | TY_VLA
  | TY_STRUCT | TY_UNION | TY_FUNC | TY_COMPLEX

datatype StorageClass = SC_NONE | SC_TYPEDEF | SC_EXTERN | SC_STATIC | SC_AUTO | SC_REGISTER

datatype Type = Type
    (kind: TypeKind)
    (tsize: int)
    (align: int)
    (is_unsigned: bool)
    (qual: int)
    (is_inline: bool)
    (base: "Type option")
    (array_len: int)
    (members: "Member list")
    (return_type: "Type option")
and Member = Member
    (mname: "string option")
    (mtype: Type)
    (offset: int)
    (bit_width: int)
    (bit_offset: int)
    (idx: int)

text \<open>\<^verbatim>\<open>new_type\<close>: a zero-filled object with kind, size and alignment set.\<close>

definition new_type :: "TypeKind \<Rightarrow> int \<Rightarrow> int \<Rightarrow> Type" where
  "new_type k sz al = Type k sz al False 0 False None 0 [] None"

definition set_unsigned :: "Type \<Rightarrow> Type" where
  "set_unsigned t =
     Type (kind t) (tsize t) (align t) True (qual t) (is_inline t) (base t) (array_len t)
       (members t) (return_type t)"

text \<open>The predefined singletons created by \<^verbatim>\<open>type_init\<close>.\<close>

definition ty_void :: Type where "ty_void = new_type TY_VOID 0 1"
definition ty_bool :: Type where "ty_bool = set_unsigned (new_type TY_BOOL 1 1)"
definition ty_char :: Type where "ty_char = new_type TY_CHAR 1 1"
definition ty_schar :: Type where "ty_schar = new_type TY_CHAR 1 1"
definition ty_uchar :: Type where "ty_uchar = set_unsigned (new_type TY_CHAR 1 1)"
definition ty_short :: Type where "ty_short = new_type TY_SHORT 2 2"
definition ty_ushort :: Type where "ty_ushort = set_unsigned (new_type TY_SHORT 2 2)"
definition ty_int :: Type where "ty_int = new_type TY_INT 4 4"
definition ty_uint :: Type where "ty_uint = set_unsigned (new_type TY_INT 4 4)"
definition ty_long :: Type where "ty_long = new_type TY_LONG 4 4"
definition ty_ulong :: Type where "ty_ulong = set_unsigned (new_type TY_LONG 4 4)"
definition ty_llong :: Type where "ty_llong = new_type TY_LLONG 8 8"
definition ty_ullong :: Type where "ty_ullong = set_unsigned (new_type TY_LLONG 8 8)"
definition ty_float :: Type where "ty_float = new_type TY_FLOAT 4 4"
definition ty_double :: Type where "ty_double = new_type TY_DOUBLE 8 8"
definition ty_ldouble :: Type where "ty_ldouble = new_type TY_LDOUBLE 8 8"

lemmas ty_defs =
  ty_void_def ty_bool_def ty_char_def ty_schar_def ty_uchar_def ty_short_def ty_ushort_def
  ty_int_def ty_uint_def ty_long_def ty_ulong_def ty_llong_def ty_ullong_def
  ty_float_def ty_double_def ty_ldouble_def new_type_def set_unsigned_def

text \<open>Type constructors used further down.\<close>

definition type_array :: "Type \<Rightarrow> int \<Rightarrow> Type" where
  "type_array b len =
     Type TY_ARRAY (to_s32 (tsize b * len)) (align b) False 0 False (Some b) len [] None"

definition type_vla :: "Type \<Rightarrow> Type" where
  "type_vla b = Type TY_VLA 0 (align b) False 0 False (Some b) 0 [] None"

definition type_enum :: Type where
  "type_enum = new_type TY_ENUM 4 4"

definition type_struct :: Type where
  "type_struct = new_type TY_STRUCT 0 1"

definition type_union :: Type where
  "type_union = new_type TY_UNION 0 1"

definition type_complex :: "Type \<Rightarrow> Type" where
  "type_complex b = Type TY_COMPLEX (tsize b * 2) (align b) False 0 False None 0 [] None"

definition type_func :: "Type \<Rightarrow> Type" where
  "type_func ret = Type TY_FUNC 0 1 False 0 False None 0 [] (Some ret)"

definition type_ptr :: "Type \<Rightarrow> Type" where
  "type_ptr b = Type TY_PTR 4 4 True 0 False (Some b) 0 [] None"

text \<open>Type queries.\<close>

fun type_is_integer :: "Type \<Rightarrow> bool" where
  "type_is_integer t =
     (case kind t of
        TY_BOOL \<Rightarrow> True | TY_CHAR \<Rightarrow> True | TY_SHORT \<Rightarrow> True | TY_INT \<Rightarrow> True
      | TY_LONG \<Rightarrow> True | TY_LLONG \<Rightarrow> True | TY_ENUM \<Rightarrow> True
      | _ \<Rightarrow> False)"

definition type_is_float :: "Type \<Rightarrow> bool" where
  "type_is_float t \<longleftrightarrow> kind t = TY_FLOAT \<or> kind t = TY_DOUBLE \<or> kind t = TY_LDOUBLE"

definition type_is_arithmetic :: "Type \<Rightarrow> bool" where
  "type_is_arithmetic t \<longleftrightarrow> type_is_integer t \<or> type_is_float t \<or> kind t = TY_COMPLEX"

definition type_is_scalar :: "Type \<Rightarrow> bool" where
  "type_is_scalar t \<longleftrightarrow> type_is_arithmetic t \<or> kind t = TY_PTR"

definition type_sizeof :: "Type \<Rightarrow> int" where
  "type_sizeof t = tsize t"

definition type_alignof :: "Type \<Rightarrow> int" where
  "type_alignof t = align t"

subsection \<open>Conversions (C99 6.3)\<close>

fun type_rank :: "Type \<Rightarrow> int" where
  "type_rank t =
     (case kind t of
        TY_BOOL \<Rightarrow> 1 | TY_CHAR \<Rightarrow> 2 | TY_SHORT \<Rightarrow> 3 | TY_INT \<Rightarrow> 4
      | TY_LONG \<Rightarrow> 5 | TY_LLONG \<Rightarrow> 6 | TY_ENUM \<Rightarrow> 4
      | _ \<Rightarrow> 0)"

definition type_int_promote :: "Type \<Rightarrow> Type" where
  "type_int_promote t = (if type_rank t < type_rank ty_int then ty_int else t)"

text \<open>
  \<^verbatim>\<open>type_usual_arith\<close>. The source compares the two promoted operands by address
  (\<^verbatim>\<open>at == bt\<close>); the embedding compares their contents. Two distinct objects with equal
  contents have the same signedness and rank, so the source falls through to
  \<^verbatim>\<open>ra >= rb ? at : bt\<close> and returns \<^verbatim>\<open>at\<close> as well.
\<close>

definition type_usual_arith :: "Type \<Rightarrow> Type \<Rightarrow> Type" where
  "type_usual_arith at0 bt0 =
     (if kind at0 = TY_LDOUBLE \<or> kind bt0 = TY_LDOUBLE then ty_ldouble
      else if kind at0 = TY_DOUBLE \<or> kind bt0 = TY_DOUBLE then ty_double
      else if kind at0 = TY_FLOAT \<or> kind bt0 = TY_FLOAT then ty_float
      else
        let at = type_int_promote at0;
            bt = type_int_promote bt0
        in if at = bt then at
           else
             let ra = type_rank at; rb = type_rank bt
             in if is_unsigned at = is_unsigned bt then (if ra \<ge> rb then at else bt)
                else
                  let u = (if is_unsigned at then at else bt);
                      s = (if is_unsigned at then bt else at)
                  in if type_rank u \<ge> type_rank s then u
                     else if tsize s > tsize u then s
                     else if kind s = TY_INT then ty_uint
                     else if kind s = TY_LONG then ty_ulong
                     else if kind s = TY_LLONG then ty_ullong
                     else ty_uint)"

definition type_default_arg_promote :: "Type \<Rightarrow> Type" where
  "type_default_arg_promote t =
     (if type_is_integer t then type_int_promote t
      else if kind t = TY_FLOAT then ty_double
      else t)"

subsection \<open>The usual arithmetic conversions as the specification words them\<close>

text \<open>
  The specification's integer promotion: an integer type of rank below \<open>int\<close> becomes
  \<open>int\<close>; every other type is unchanged.
\<close>

definition spec_int_promote :: "Type \<Rightarrow> Type" where
  "spec_int_promote t =
     (if type_is_integer t \<and> type_rank t < type_rank ty_int then ty_int else t)"

definition higher_rank :: "Type \<Rightarrow> Type \<Rightarrow> Type" where
  "higher_rank a b = (if type_rank a \<ge> type_rank b then a else b)"

definition unsigned_variant :: "Type \<Rightarrow> Type" where
  "unsigned_variant s =
     (case kind s of
        TY_INT \<Rightarrow> ty_uint | TY_LONG \<Rightarrow> ty_ulong | TY_LLONG \<Rightarrow> ty_ullong
      | _ \<Rightarrow> ty_uint)"

definition spec_common_type :: "Type \<Rightarrow> Type \<Rightarrow> Type" where
  "spec_common_type a b =
     (if kind a = TY_LDOUBLE \<or> kind b = TY_LDOUBLE then ty_ldouble
      else if kind a = TY_DOUBLE \<or> kind b = TY_DOUBLE then ty_double
      else if kind a = TY_FLOAT \<or> kind b = TY_FLOAT then ty_float
      else
        let pa = spec_int_promote a; pb = spec_int_promote b
        in if is_unsigned pa = is_unsigned pb then higher_rank pa pb
           else
             let u = (if is_unsigned pa then pa else pb);
                 s = (if is_unsigned pa then pb else pa)
             in if type_rank u \<ge> type_rank s then u
                else if tsize s > tsize u then s
                else unsigned_variant s)"


subsection \<open>Claim C1: the usual arithmetic conversions\<close>

lemma spec_int_promote_eq:
  assumes "type_is_arithmetic a" and "kind a \<noteq> TY_COMPLEX"
    and "kind a \<noteq> TY_FLOAT" and "kind a \<noteq> TY_DOUBLE" and "kind a \<noteq> TY_LDOUBLE"
  shows "spec_int_promote a = type_int_promote a"
  using assms
  by (auto simp: spec_int_promote_def type_int_promote_def type_is_arithmetic_def
        type_is_float_def split: TypeKind.splits)

text \<open>
  C1 (as amended). For all arithmetic types \<open>a\<close> and \<open>b\<close> other than \<^verbatim>\<open>_Complex\<close> types,
  \<^verbatim>\<open>type_usual_arith\<close> returns the common type the specification describes: long double,
  double or float when an operand has that type, and otherwise, on the integer-promoted
  operands, the higher-rank type for equal signedness, the unsigned operand's type when
  its rank is at least the signed operand's, the signed operand's type when it is
  strictly larger, and else the unsigned variant of the signed operand's type.
\<close>

theorem type_usual_arith_common_type:
  assumes "type_is_arithmetic a" and "kind a \<noteq> TY_COMPLEX"
    and "type_is_arithmetic b" and "kind b \<noteq> TY_COMPLEX"
  shows "type_usual_arith a b = spec_common_type a b"
proof (cases "kind a \<in> {TY_FLOAT, TY_DOUBLE, TY_LDOUBLE} \<or> kind b \<in> {TY_FLOAT, TY_DOUBLE, TY_LDOUBLE}")
  case True
  then show ?thesis
    by (auto simp: type_usual_arith_def spec_common_type_def)
next
  case False
  then have "spec_int_promote a = type_int_promote a" "spec_int_promote b = type_int_promote b"
    using assms by (auto intro: spec_int_promote_eq)
  with False show ?thesis
    by (auto simp: type_usual_arith_def spec_common_type_def Let_def higher_rank_def
          unsigned_variant_def split: TypeKind.splits)
qed

text \<open>Signed long combined with unsigned int yields unsigned long.\<close>

theorem type_usual_arith_common_type_witness:
  "type_is_arithmetic ty_long \<and> kind ty_long \<noteq> TY_COMPLEX \<and>
   type_is_arithmetic ty_uint \<and> kind ty_uint \<noteq> TY_COMPLEX \<and>
   type_usual_arith ty_long ty_uint = spec_common_type ty_long ty_uint \<and>
   spec_common_type ty_long ty_uint = ty_ulong"
proof -
  have a: "type_is_arithmetic ty_long" "kind ty_long \<noteq> TY_COMPLEX"
    by (simp_all add: type_is_arithmetic_def ty_defs)
  have b: "type_is_arithmetic ty_uint" "kind ty_uint \<noteq> TY_COMPLEX"
    by (simp_all add: type_is_arithmetic_def ty_defs)
  have c: "spec_common_type ty_long ty_uint = ty_ulong"
    by (simp add: spec_common_type_def spec_int_promote_def unsigned_variant_def ty_defs)
  from a b c type_usual_arith_common_type [OF a b] show ?thesis
    by simp
qed

text \<open>
  The claim as stated covers every arithmetic type, and \<^verbatim>\<open>type_is_arithmetic\<close> accepts
  \<^verbatim>\<open>_Complex\<close> types. For two \<^verbatim>\<open>double _Complex\<close> operands the function answers \<open>int\<close>:
  \<^verbatim>\<open>type_int_promote\<close> sends every type of rank 0 to \<open>int\<close>.
\<close>

theorem type_usual_arith_complex_counterexample:
  "type_is_arithmetic (type_complex ty_double) \<and>
   type_usual_arith (type_complex ty_double) (type_complex ty_double) = ty_int \<and>
   spec_common_type (type_complex ty_double) (type_complex ty_double) = type_complex ty_double \<and>
   type_usual_arith (type_complex ty_double) (type_complex ty_double)
     \<noteq> spec_common_type (type_complex ty_double) (type_complex ty_double)"
  by (simp add: type_usual_arith_def spec_common_type_def spec_int_promote_def
        type_int_promote_def higher_rank_def type_is_arithmetic_def type_complex_def ty_defs)

section \<open>Struct and union layout (parser.c, parse_type_specifier)\<close>

text \<open>
  A declared member as the layout loop sees it: name, type and bitfield width (-1 for
  none). The loop runs over the declared members with the running \<^verbatim>\<open>offset\<close>,
  \<^verbatim>\<open>max_align\<close> and \<^verbatim>\<open>idx\<close>, all \<^verbatim>\<open>int\<close>; it returns the members and the final
  \<^verbatim>\<open>offset\<close> and \<^verbatim>\<open>max_align\<close>.
\<close>

type_synonym MemberDecl = "string option \<times> Type \<times> int"

fun layout_members ::
  "bool \<Rightarrow> MemberDecl list \<Rightarrow> int \<Rightarrow> int \<Rightarrow> int \<Rightarrow> Member list \<times> int \<times> int" where
  "layout_members is_struct [] offs max_align i = ([], offs, max_align)"
| "layout_members is_struct ((nm, mty, bw) # ds) offs max_align i =
     (if is_struct then
        (let al = type_alignof mty;
             max_align1 = (if al > max_align then al else max_align);
             offs1 = to_s32 (to_s32 (offs + al) - 1) AND NOT (to_s32 (al - 1));
             m = Member nm mty offs1 bw 0 i;
             offs2 = (if bw < 0 then to_s32 (offs1 + type_sizeof mty) else offs1);
             (ms, offs3, max_align3) =
               layout_members is_struct ds offs2 max_align1 (to_s32 (i + 1))
         in (m # ms, offs3, max_align3))
      else
        (let m = Member nm mty 0 bw 0 i;
             sz = type_sizeof mty;
             offs1 = (if sz > offs then sz else offs);
             al = type_alignof mty;
             max_align1 = (if al > max_align then al else max_align);
             (ms, offs3, max_align3) =
               layout_members is_struct ds offs1 max_align1 (to_s32 (i + 1))
         in (m # ms, offs3, max_align3)))"

text \<open>
  Flattening: a pass replaces every unnamed struct or union member by copies of its
  sub-members with the member's offset added, and passes are repeated until one changes
  nothing.
\<close>

definition is_anon_aggregate :: "Member \<Rightarrow> bool" where
  "is_anon_aggregate m \<longleftrightarrow>
     mname m = None \<and> (kind (mtype m) = TY_STRUCT \<or> kind (mtype m) = TY_UNION)"

definition shift_member :: "int \<Rightarrow> Member \<Rightarrow> Member" where
  "shift_member d sub =
     Member (mname sub) (mtype sub) (to_s32 (offset sub + d)) (bit_width sub) (bit_offset sub)
       (idx sub)"

fun flatten_pass :: "Member list \<Rightarrow> Member list \<times> bool" where
  "flatten_pass [] = ([], False)"
| "flatten_pass (m # ms) =
     (let (rest, changed) = flatten_pass ms
      in if is_anon_aggregate m
         then (map (shift_member (offset m)) (members (mtype m)) @ rest, True)
         else (m # rest, changed))"

lemma size_shift_member [simp]: "size (shift_member d m) = size m"
  by (cases m) (simp add: shift_member_def)

lemma size_list_shift: "size_list (size \<circ> shift_member d) ms = size_list size ms"
  by (induction ms) auto

lemma size_members_less: "size_list size (members (mtype m)) < size m"
  by (cases m; cases "mtype m") auto

lemma flatten_pass_size_le: "size_list size (fst (flatten_pass ms)) \<le> size_list size ms"
proof (induction ms)
  case Nil then show ?case by simp
next
  case (Cons m ms)
  have "size_list size (members (mtype m)) < size m" by (rule size_members_less)
  with Cons show ?case
    by (auto simp: size_list_shift split: prod.splits)
qed

lemma flatten_pass_size_less:
  "snd (flatten_pass ms) \<Longrightarrow> size_list size (fst (flatten_pass ms)) < size_list size ms"
proof (induction ms)
  case Nil then show ?case by simp
next
  case (Cons m ms)
  have a: "size_list size (members (mtype m)) < size m" by (rule size_members_less)
  have b: "size_list size (fst (flatten_pass ms)) \<le> size_list size ms" by (rule flatten_pass_size_le)
  from Cons a b show ?case
    by (auto simp: size_list_shift split: prod.splits if_splits)
qed

function flatten_members :: "Member list \<Rightarrow> Member list" where
  "flatten_members ms =
     (if snd (flatten_pass ms) then flatten_members (fst (flatten_pass ms))
      else fst (flatten_pass ms))"
  by pat_completeness auto
termination
  by (relation "measure (size_list size)") (auto simp: flatten_pass_size_less)

declare flatten_members.simps [simp del]


definition complete_struct_union :: "bool \<Rightarrow> MemberDecl list \<Rightarrow> Type \<Rightarrow> Type" where
  "complete_struct_union is_struct ds ty =
     (let (ms, offs, max_align) = layout_members is_struct ds 0 1 0;
          flat = flatten_members ms;
          sz = to_s32 (to_s32 (offs + max_align) - 1) AND NOT (to_s32 (max_align - 1))
      in Type (kind ty) sz max_align (is_unsigned ty) (qual ty) (is_inline ty) (base ty)
           (array_len ty) flat (return_type ty))"

subsection \<open>Member types the declarator builds\<close>

text \<open>
  For a member \<^verbatim>\<open>T name[]\<close> \<^verbatim>\<open>parse_declarator\<close> calls \<^verbatim>\<open>type_array\<close> with the length
  \<open>-1\<close>, so a flexible array member has the negated element size as its size.
\<close>

definition flexible_array :: "Type \<Rightarrow> Type" where
  "flexible_array b = type_array b (- 1)"

text \<open>
  For a parenthesised declarator \<^verbatim>\<open>T (name[n])\<close> \<^verbatim>\<open>parse_declarator\<close> parses the inner
  declarator over a zero-filled placeholder type, copies the base type into the
  placeholder afterwards and returns the inner type. The array has been built by then:
  it keeps the size and alignment computed from the placeholder, and its element type
  is the base type.
\<close>

definition grouped_dummy :: Type where
  "grouped_dummy = Type TY_VOID 0 0 False 0 False None 0 [] None"

definition grouped_array :: "Type \<Rightarrow> int \<Rightarrow> Type" where
  "grouped_array b len =
     (let t = type_array grouped_dummy len
      in Type (kind t) (tsize t) (align t) (is_unsigned t) (qual t) (is_inline t) (Some b)
           (array_len t) (members t) (return_type t))"

subsection \<open>Layouts of some types\<close>

lemma to_s32_numeral:
  "to_s32 0 = 0" "to_s32 1 = 1" "to_s32 (- 1) = - 1"
  "to_s32 (numeral k) = (numeral k + 2 ^ 31) mod 2 ^ 32 - 2 ^ 31"
  "to_s32 (- numeral k) = (- numeral k + 2 ^ 31) mod 2 ^ 32 - 2 ^ 31"
  by (simp_all add: to_s32_def)

lemmas layout_defs = complete_struct_union_def flatten_members.simps is_anon_aggregate_def
  shift_member_def type_alignof_def type_sizeof_def type_struct_def type_union_def
  type_array_def type_ptr_def to_s32_numeral ty_defs Let_def

text \<open>
  \<^verbatim>\<open>struct { char c; int i; long long l; short s; }\<close> has the offsets 0, 4, 8 and 16,
  alignment 8 and size 24.
\<close>

definition example_struct :: Type where
  "example_struct =
     complete_struct_union True
       [(Some ''c'', ty_char, -1), (Some ''i'', ty_int, -1),
        (Some ''l'', ty_llong, -1), (Some ''s'', ty_short, -1)] type_struct"

lemma example_struct_layout:
  "map offset (members example_struct) = [0, 4, 8, 16] \<and>
   map idx (members example_struct) = [0, 1, 2, 3] \<and>
   align example_struct = 8 \<and> tsize example_struct = 24"
  by (simp add: example_struct_def layout_defs)


text \<open>
  \<^verbatim>\<open>union { char c; short s[3]; int i; }\<close> has every member at offset 0, alignment 4 and
  size 8, the largest member size 6 rounded up.
\<close>

definition example_union :: Type where
  "example_union =
     complete_struct_union False
       [(Some ''c'', ty_char, -1), (Some ''s'', type_array ty_short 3, -1),
        (Some ''i'', ty_int, -1)] type_union"

lemma example_union_layout:
  "map offset (members example_union) = [0, 0, 0] \<and>
   align example_union = 4 \<and> tsize example_union = 8"
  by (simp add: example_union_def layout_defs)

text \<open>
  Anonymous members are flattened. The union of the repository's \<^verbatim>\<open>test_anon.c\<close>,
  \<^verbatim>\<open>union { int ival; struct { const char *name; int len; }; }\<close>, stores \<open>len\<close> in its
  member list at offset 4, and \<^verbatim>\<open>struct { int tag; struct { int b; int c; }; }\<close> stores
  \<open>b\<close> and \<open>c\<close> at 4 and 8.
\<close>

definition anon_inner_struct :: Type where
  "anon_inner_struct =
     complete_struct_union True
       [(Some ''name'', type_ptr ty_char, -1), (Some ''len'', ty_int, -1)] type_struct"

definition anon_union :: Type where
  "anon_union =
     complete_struct_union False
       [(Some ''ival'', ty_int, -1), (None, anon_inner_struct, -1)] type_union"

definition anon_pair :: Type where
  "anon_pair =
     complete_struct_union True [(Some ''b'', ty_int, -1), (Some ''c'', ty_int, -1)] type_struct"

definition tagged_struct :: Type where
  "tagged_struct =
     complete_struct_union True [(Some ''tag'', ty_int, -1), (None, anon_pair, -1)] type_struct"

lemma anon_inner_struct_eq:
  "anon_inner_struct =
     Type TY_STRUCT 8 4 False 0 False None 0
       [Member (Some ''name'') (type_ptr ty_char) 0 (-1) 0 0,
        Member (Some ''len'') ty_int 4 (-1) 0 1] None"
  by (simp add: anon_inner_struct_def layout_defs)

lemma anon_pair_eq:
  "anon_pair =
     Type TY_STRUCT 8 4 False 0 False None 0
       [Member (Some ''b'') ty_int 0 (-1) 0 0, Member (Some ''c'') ty_int 4 (-1) 0 1] None"
  by (simp add: anon_pair_def layout_defs)

lemma anon_members_flattened:
  "map mname (members anon_union) = [Some ''ival'', Some ''name'', Some ''len''] \<and>
   map offset (members anon_union) = [0, 0, 4] \<and> tsize anon_union = 8 \<and>
   map mname (members tagged_struct) = [Some ''tag'', Some ''b'', Some ''c''] \<and>
   map offset (members tagged_struct) = [0, 4, 8] \<and> tsize tagged_struct = 12"
  by (simp add: anon_union_def tagged_struct_def anon_inner_struct_eq anon_pair_eq layout_defs)

subsection \<open>Claim C2: struct and union layout\<close>

text \<open>
  \<^verbatim>\<open>struct { int len; int cap; int data[]; }\<close> and
  \<^verbatim>\<open>struct { int x; int (a[2]); int y; }\<close>, as the parser completes them.
\<close>

definition flex_struct :: Type where
  "flex_struct =
     complete_struct_union True
       [(Some ''len'', ty_int, -1), (Some ''cap'', ty_int, -1),
        (Some ''data'', flexible_array ty_int, -1)] type_struct"

definition grouped_struct :: Type where
  "grouped_struct =
     complete_struct_union True
       [(Some ''x'', ty_int, -1), (Some ''a'', grouped_array ty_int 2, -1),
        (Some ''y'', ty_int, -1)] type_struct"

text \<open>
  Claim C2 says that in every struct without bitfields each member lies at the smallest
  multiple of its alignment that is not below the high-water mark of the members before
  it, and that the size of the struct is the high-water mark rounded up to the
  struct's alignment. The code departs from it in two places. The flexible array member
  \<open>data\<close> has size \<open>-4\<close>, which the layout loop adds to the running offset: the struct
  gets the size 4 although \<open>cap\<close> occupies the bytes 4 to 7. And the array \<open>a\<close> of the
  parenthesised declarator has size 0 and alignment 0, for which the rounding
  \<^verbatim>\<open>(offset + align - 1) & ~(align - 1)\<close> yields 0: \<open>a\<close> and then \<open>y\<close> are placed at offset
  0, on top of \<open>x\<close>, and the struct has the size 4.
\<close>

theorem struct_layout_flexible_and_grouped_array:
  "map offset (members flex_struct) = [0, 4, 8] \<and>
   map (\<lambda>m. tsize (mtype m)) (members flex_struct) = [4, 4, - 4] \<and>
   align flex_struct = 4 \<and> tsize flex_struct = 4 \<and>
   map offset (members grouped_struct) = [0, 0, 0] \<and>
   map (\<lambda>m. (tsize (mtype m), align (mtype m))) (members grouped_struct)
     = [(4, 4), (0, 0), (4, 4)] \<and>
   align grouped_struct = 4 \<and> tsize grouped_struct = 4"
  by (simp add: flex_struct_def grouped_struct_def flexible_array_def grouped_array_def
        grouped_dummy_def layout_defs)

section \<open>The symbol table (symtab.h, symtab.c)\<close>

datatype SymKind = SYM_VAR | SYM_FUNC | SYM_TYPEDEF | SYM_ENUM_CONST | SYM_PARAM

type_synonym SrcLoc = "string \<times> int \<times> int"

record Symbol =
  sym_name :: string
  sym_kind :: SymKind
  sym_type :: Type
  sym_sc :: StorageClass
  sym_addr :: int
  enum_val :: int
  is_defined :: bool
  is_local :: bool
  sym_loc :: SrcLoc

record Scope =
  syms :: "nat \<Rightarrow> Symbol list"
  depth :: int
  is_func_scope :: bool

record SymTab =
  current :: Scope
  parents :: "Scope list"

definition SCOPE_HASH_SIZE :: nat where
  "SCOPE_HASH_SIZE = 64"

definition sym_hash :: "string \<Rightarrow> nat" where
  "sym_hash name =
     unat (foldl (\<lambda>h c. h * 31 + of_char c) (0 :: 32 word) name) mod SCOPE_HASH_SIZE"

definition new_scope :: "Scope option \<Rightarrow> Scope" where
  "new_scope parent =
     \<lparr>syms = (\<lambda>_. []),
      depth = (case parent of None \<Rightarrow> 0 | Some p \<Rightarrow> depth p + 1),
      is_func_scope = False\<rparr>"

definition symtab_init :: SymTab where
  "symtab_init = \<lparr>current = new_scope None, parents = []\<rparr>"

definition symtab_enter_scope :: "SymTab \<Rightarrow> SymTab" where
  "symtab_enter_scope st =
     \<lparr>current = new_scope (Some (current st)), parents = current st # parents st\<rparr>"

definition symtab_leave_scope :: "SymTab \<Rightarrow> SymTab" where
  "symtab_leave_scope st =
     (case parents st of [] \<Rightarrow> st | p # ps \<Rightarrow> \<lparr>current = p, parents = ps\<rparr>)"

fun chain_find :: "Symbol list \<Rightarrow> string \<Rightarrow> Symbol option" where
  "chain_find [] name = None"
| "chain_find (s # ss) name = (if sym_name s = name then Some s else chain_find ss name)"

definition symtab_lookup_current :: "SymTab \<Rightarrow> string \<Rightarrow> Symbol option" where
  "symtab_lookup_current st name = chain_find (syms (current st) (sym_hash name)) name"

fun scopes_find :: "Scope list \<Rightarrow> string \<Rightarrow> Symbol option" where
  "scopes_find [] name = None"
| "scopes_find (sc # scs) name =
     (case chain_find (syms sc (sym_hash name)) name of
        Some s \<Rightarrow> Some s
      | None \<Rightarrow> scopes_find scs name)"

definition symtab_lookup :: "SymTab \<Rightarrow> string \<Rightarrow> Symbol option" where
  "symtab_lookup st name = scopes_find (current st # parents st) name"

datatype DefineOutcome = Retyped | Redefinition

fun define_chain ::
  "Symbol list \<Rightarrow> string \<Rightarrow> SymKind \<Rightarrow> Type \<Rightarrow> (Symbol list \<times> Symbol \<times> DefineOutcome) option" where
  "define_chain [] name kd ty = None"
| "define_chain (s # ss) name kd ty =
     (if sym_name s = name then
        (if sym_kind s = SYM_FUNC \<and> kd = SYM_FUNC \<and> \<not> is_defined s
         then Some (s\<lparr>sym_type := ty\<rparr> # ss, s\<lparr>sym_type := ty\<rparr>, Retyped)
         else if sym_sc s = SC_EXTERN
         then Some (s\<lparr>sym_type := ty\<rparr> # ss, s\<lparr>sym_type := ty\<rparr>, Retyped)
         else Some (s # ss, s, Redefinition))
      else
        (case define_chain ss name kd ty of
           None \<Rightarrow> None
         | Some (ss', r, out) \<Rightarrow> Some (s # ss', r, out)))"

definition new_symbol :: "SymTab \<Rightarrow> string \<Rightarrow> SymKind \<Rightarrow> Type \<Rightarrow> SrcLoc \<Rightarrow> Symbol" where
  "new_symbol st name kd ty loc =
     \<lparr>sym_name = name, sym_kind = kd, sym_type = ty, sym_sc = SC_NONE, sym_addr = 0,
      enum_val = 0, is_defined = False, is_local = (parents st \<noteq> []), sym_loc = loc\<rparr>"

definition set_chain :: "SymTab \<Rightarrow> nat \<Rightarrow> Symbol list \<Rightarrow> SymTab" where
  "set_chain st h chain = st\<lparr>current := (current st)\<lparr>syms := (syms (current st))(h := chain)\<rparr>\<rparr>"

definition symtab_define ::
  "SymTab \<Rightarrow> string \<Rightarrow> SymKind \<Rightarrow> Type \<Rightarrow> SrcLoc \<Rightarrow> SymTab \<times> Symbol \<times> string list" where
  "symtab_define st name kd ty loc =
     (let h = sym_hash name in
      case define_chain (syms (current st) h) name kd ty of
        Some (chain', s, Retyped) \<Rightarrow> (set_chain st h chain', s, [])
      | Some (chain', s, Redefinition) \<Rightarrow>
          (set_chain st h chain', s, [''redefinition of '' @ name])
      | None \<Rightarrow>
          (let s = new_symbol st name kd ty loc
           in (set_chain st h (s # syms (current st) h), s, [])))"

definition scope_entries :: "Scope \<Rightarrow> nat" where
  "scope_entries sc = (\<Sum>h < SCOPE_HASH_SIZE. length (syms sc h))"


text \<open>The two exceptions of the specification, in its words.\<close>

definition redeclaration_allowed :: "Symbol \<Rightarrow> SymKind \<Rightarrow> bool" where
  "redeclaration_allowed s kd \<longleftrightarrow>
     (sym_kind s = SYM_FUNC \<and> kd = SYM_FUNC \<and> \<not> is_defined s) \<or> sym_sc s = SC_EXTERN"

lemma define_chain_None: "define_chain ch name kd ty = None \<longleftrightarrow> chain_find ch name = None"
  by (induction ch) (auto split: option.splits)

lemma define_chain_redefinition:
  "chain_find ch name = Some s \<Longrightarrow> \<not> redeclaration_allowed s kd \<Longrightarrow>
   define_chain ch name kd ty = Some (ch, s, Redefinition)"
  by (induction ch) (auto simp: redeclaration_allowed_def)

lemma define_chain_retyped:
  "chain_find ch name = Some s \<Longrightarrow> redeclaration_allowed s kd \<Longrightarrow>
   \<exists>ch'. define_chain ch name kd ty = Some (ch', s\<lparr>sym_type := ty\<rparr>, Retyped) \<and>
         length ch' = length ch \<and>
         chain_find ch' name = Some (s\<lparr>sym_type := ty\<rparr>) \<and>
         (\<forall>n. n \<noteq> name \<longrightarrow> chain_find ch' n = chain_find ch n)"
proof (induction ch)
  case Nil
  then show ?case by simp
next
  case (Cons x xs)
  show ?case
  proof (cases "sym_name x = name")
    case True
    with Cons.prems show ?thesis
      by (auto simp: redeclaration_allowed_def)
  next
    case False
    with Cons.prems have "chain_find xs name = Some s" by simp
    from Cons.IH [OF this Cons.prems(2)] obtain ch' where
      "define_chain xs name kd ty = Some (ch', s\<lparr>sym_type := ty\<rparr>, Retyped)"
      "length ch' = length xs" "chain_find ch' name = Some (s\<lparr>sym_type := ty\<rparr>)"
      "\<forall>n. n \<noteq> name \<longrightarrow> chain_find ch' n = chain_find xs n"
      by blast
    with False show ?thesis by simp
  qed
qed

lemma lookup_current_set_chain_same:
  "symtab_lookup_current (set_chain st (sym_hash name) ch) name = chain_find ch name"
  by (simp add: symtab_lookup_current_def set_chain_def)

lemma lookup_current_set_chain_other:
  "sym_hash n \<noteq> h \<Longrightarrow>
   symtab_lookup_current (set_chain st h ch) n = symtab_lookup_current st n"
  by (simp add: symtab_lookup_current_def set_chain_def)

lemma symtab_define_redefined:
  assumes "symtab_lookup_current st name = Some s" and "\<not> redeclaration_allowed s kd"
  shows "symtab_define st name kd ty loc = (st, s, [''redefinition of '' @ name])"
proof -
  from assms have "define_chain (syms (current st) (sym_hash name)) name kd ty
      = Some (syms (current st) (sym_hash name), s, Redefinition)"
    by (simp add: symtab_lookup_current_def define_chain_redefinition)
  then show ?thesis
    by (simp add: symtab_define_def set_chain_def)
qed

lemma symtab_define_retyped:
  assumes "symtab_lookup_current st name = Some s" and "redeclaration_allowed s kd"
  shows "\<exists>st'. symtab_define st name kd ty loc = (st', s\<lparr>sym_type := ty\<rparr>, []) \<and>
           parents st' = parents st \<and>
           (\<forall>h. length (syms (current st') h) = length (syms (current st) h)) \<and>
           symtab_lookup_current st' name = Some (s\<lparr>sym_type := ty\<rparr>) \<and>
           (\<forall>n. n \<noteq> name \<longrightarrow> symtab_lookup_current st' n = symtab_lookup_current st n)"
proof -
  let ?h = "sym_hash name"
  from assms have "chain_find (syms (current st) ?h) name = Some s"
    by (simp add: symtab_lookup_current_def)
  from define_chain_retyped [OF this assms(2), of ty] obtain ch' where ch':
    "define_chain (syms (current st) ?h) name kd ty = Some (ch', s\<lparr>sym_type := ty\<rparr>, Retyped)"
    "length ch' = length (syms (current st) ?h)"
    "chain_find ch' name = Some (s\<lparr>sym_type := ty\<rparr>)"
    "\<forall>n. n \<noteq> name \<longrightarrow> chain_find ch' n = chain_find (syms (current st) ?h) n"
    by blast
  let ?st' = "set_chain st ?h ch'"
  have 1: "symtab_define st name kd ty loc = (?st', s\<lparr>sym_type := ty\<rparr>, [])"
    using ch'(1) by (simp add: symtab_define_def)
  have 2: "parents ?st' = parents st" by (simp add: set_chain_def)
  have 3: "\<forall>h. length (syms (current ?st') h) = length (syms (current st) h)"
    using ch'(2) by (simp add: set_chain_def)
  have 4: "symtab_lookup_current ?st' name = Some (s\<lparr>sym_type := ty\<rparr>)"
    using ch'(3) by (simp add: lookup_current_set_chain_same)
  have 5: "\<forall>n. n \<noteq> name \<longrightarrow> symtab_lookup_current ?st' n = symtab_lookup_current st n"
  proof (intro allI impI)
    fix n assume n: "n \<noteq> name"
    show "symtab_lookup_current ?st' n = symtab_lookup_current st n"
    proof (cases "sym_hash n = ?h")
      case True
      with n ch'(4) show ?thesis
        by (simp add: symtab_lookup_current_def set_chain_def)
    next
      case False
      then show ?thesis by (rule lookup_current_set_chain_other)
    qed
  qed
  from 1 2 3 4 5 show ?thesis by blast
qed

lemma symtab_define_fresh:
  assumes "symtab_lookup_current st name = None"
  shows "\<exists>st'. symtab_define st name kd ty loc = (st', new_symbol st name kd ty loc, []) \<and>
           parents st' = parents st \<and>
           syms (current st') (sym_hash name)
             = new_symbol st name kd ty loc # syms (current st) (sym_hash name) \<and>
           (\<forall>h. h \<noteq> sym_hash name \<longrightarrow> syms (current st') h = syms (current st) h) \<and>
           symtab_lookup_current st' name = Some (new_symbol st name kd ty loc) \<and>
           symtab_lookup st' name = Some (new_symbol st name kd ty loc)"
proof -
  from assms have "define_chain (syms (current st) (sym_hash name)) name kd ty = None"
    by (simp add: symtab_lookup_current_def define_chain_None)
  then show ?thesis
    by (simp add: symtab_define_def set_chain_def Let_def symtab_lookup_current_def
          symtab_lookup_def new_symbol_def)
qed


text \<open>
  C8. \<^verbatim>\<open>symtab_define\<close> reports a redefinition exactly when the name is bound in the
  current scope and neither exception applies. In the exception cases no entry is
  added: the existing symbol is returned with its type replaced, and every chain keeps
  its length. When the name is not bound in the current scope (whatever the enclosing
  scopes hold) nothing is reported and a fresh entry is put in front of the chain, so
  that lookup finds it first. A reported redefinition leaves the table as it was.
\<close>

theorem symtab_define_redefinition:
  "(let r = symtab_define st name kd ty loc;
        st' = fst r; res = fst (snd r); errs = snd (snd r)
    in ((errs \<noteq> []) =
          (\<exists>s. symtab_lookup_current st name = Some s \<and> \<not> redeclaration_allowed s kd)) \<and>
       (\<forall>s. symtab_lookup_current st name = Some s \<and> redeclaration_allowed s kd \<longrightarrow>
          errs = [] \<and> res = s\<lparr>sym_type := ty\<rparr> \<and> parents st' = parents st \<and>
          (\<forall>h. length (syms (current st') h) = length (syms (current st) h)) \<and>
          symtab_lookup_current st' name = Some (s\<lparr>sym_type := ty\<rparr>) \<and>
          (\<forall>n. n \<noteq> name \<longrightarrow> symtab_lookup_current st' n = symtab_lookup_current st n)) \<and>
       (\<forall>s. symtab_lookup_current st name = Some s \<and> \<not> redeclaration_allowed s kd \<longrightarrow>
          st' = st \<and> res = s) \<and>
       (symtab_lookup_current st name = None \<longrightarrow>
          errs = [] \<and> res = new_symbol st name kd ty loc \<and> parents st' = parents st \<and>
          syms (current st') (sym_hash name) = res # syms (current st) (sym_hash name) \<and>
          (\<forall>h. h \<noteq> sym_hash name \<longrightarrow> syms (current st') h = syms (current st) h) \<and>
          symtab_lookup_current st' name = Some res \<and>
          symtab_lookup st' name = Some res))"
proof (cases "symtab_lookup_current st name")
  case None
  from symtab_define_fresh [OF None, of kd ty loc] None show ?thesis
    by (auto simp: Let_def)
next
  case (Some s)
  show ?thesis
  proof (cases "redeclaration_allowed s kd")
    case True
    from symtab_define_retyped [OF Some True, of ty loc] Some True show ?thesis
      by (auto simp: Let_def)
  next
    case False
    from symtab_define_redefined [OF Some False, of ty loc] Some False show ?thesis
      by (auto simp: Let_def)
  qed
qed

text \<open>
  A run of the four cases: \<open>f\<close> is declared at file scope, declared again (allowed: a
  function without a body), a variable \<open>x\<close> is defined twice (reported), and \<open>f\<close> is
  defined as a variable in an inner scope (a shadowing entry).
\<close>

definition decl_f :: Symbol where
  "decl_f = new_symbol symtab_init ''f'' SYM_FUNC (type_func ty_int) (''t.c'', 1, 1)"

definition st_f :: SymTab where
  "st_f = fst (symtab_define symtab_init ''f'' SYM_FUNC (type_func ty_int) (''t.c'', 1, 1))"

definition st_fx :: SymTab where
  "st_fx = fst (symtab_define st_f ''x'' SYM_VAR ty_int (''t.c'', 2, 1))"

lemma hash_f: "sym_hash ''f'' = 38"
  by (simp add: sym_hash_def SCOPE_HASH_SIZE_def)

lemma hash_x: "sym_hash ''x'' = 56"
  by (simp add: sym_hash_def SCOPE_HASH_SIZE_def)

lemma st_f_eq: "st_f = set_chain symtab_init 38 [decl_f]"
  by (simp add: st_f_def symtab_define_def hash_f symtab_init_def new_scope_def decl_f_def Let_def)

lemma lookup_st_f: "symtab_lookup_current st_f ''f'' = Some decl_f"
  by (simp add: st_f_eq symtab_lookup_current_def set_chain_def hash_f decl_f_def new_symbol_def)

lemma allowed_decl_f: "redeclaration_allowed decl_f SYM_FUNC"
  by (simp add: redeclaration_allowed_def decl_f_def new_symbol_def)

lemma st_fx_eq: "st_fx = set_chain st_f 56 [new_symbol st_f ''x'' SYM_VAR ty_int (''t.c'', 2, 1)]"
  by (simp add: st_fx_def symtab_define_def hash_x symtab_lookup_current_def st_f_eq set_chain_def
        symtab_init_def new_scope_def Let_def)

lemma lookup_st_fx:
  "symtab_lookup_current st_fx ''x'' = Some (new_symbol st_f ''x'' SYM_VAR ty_int (''t.c'', 2, 1))"
  by (simp add: st_fx_eq symtab_lookup_current_def set_chain_def hash_x new_symbol_def)

lemma lookup_inner: "symtab_lookup_current (symtab_enter_scope st_f) ''f'' = None"
  by (simp add: symtab_lookup_current_def symtab_enter_scope_def new_scope_def)

lemma lookup_outer: "symtab_lookup (symtab_enter_scope st_f) ''f'' = Some decl_f"
  by (simp add: symtab_lookup_def symtab_enter_scope_def new_scope_def st_f_eq set_chain_def hash_f
        decl_f_def new_symbol_def)

theorem symtab_define_redefinition_witness:
  "symtab_lookup_current st_f ''f'' = Some decl_f \<and> redeclaration_allowed decl_f SYM_FUNC \<and>
   snd (symtab_define st_f ''f'' SYM_FUNC (type_func ty_long) (''t.c'', 3, 1))
     = (decl_f\<lparr>sym_type := type_func ty_long\<rparr>, []) \<and>
   \<not> redeclaration_allowed (new_symbol st_f ''x'' SYM_VAR ty_int (''t.c'', 2, 1)) SYM_VAR \<and>
   snd (snd (symtab_define st_fx ''x'' SYM_VAR ty_long (''t.c'', 4, 1))) \<noteq> [] \<and>
   fst (symtab_define st_fx ''x'' SYM_VAR ty_long (''t.c'', 4, 1)) = st_fx \<and>
   symtab_lookup (symtab_enter_scope st_f) ''f'' = Some decl_f \<and>
   symtab_lookup_current (symtab_enter_scope st_f) ''f'' = None \<and>
   snd (snd (symtab_define (symtab_enter_scope st_f) ''f'' SYM_VAR ty_int (''t.c'', 5, 3))) = [] \<and>
   symtab_lookup (fst (symtab_define (symtab_enter_scope st_f) ''f'' SYM_VAR ty_int (''t.c'', 5, 3))) ''f''
     = Some (new_symbol (symtab_enter_scope st_f) ''f'' SYM_VAR ty_int (''t.c'', 5, 3))"
proof -
  let ?x = "new_symbol st_f ''x'' SYM_VAR ty_int (''t.c'', 2, 1)"
  have nx: "\<not> redeclaration_allowed ?x SYM_VAR"
    by (simp add: redeclaration_allowed_def new_symbol_def)
  have 1: "snd (symtab_define st_f ''f'' SYM_FUNC (type_func ty_long) (''t.c'', 3, 1))
     = (decl_f\<lparr>sym_type := type_func ty_long\<rparr>, [])"
    using symtab_define_redefinition [of st_f "''f''" SYM_FUNC "type_func ty_long" "(''t.c'', 3, 1)"]
      lookup_st_f allowed_decl_f
    by (simp add: Let_def prod_eq_iff)
  have 2: "snd (snd (symtab_define st_fx ''x'' SYM_VAR ty_long (''t.c'', 4, 1))) \<noteq> [] \<and>
      fst (symtab_define st_fx ''x'' SYM_VAR ty_long (''t.c'', 4, 1)) = st_fx"
    using symtab_define_redefinition [of st_fx "''x''" SYM_VAR ty_long "(''t.c'', 4, 1)"]
      lookup_st_fx nx
    by (simp add: Let_def)
  have 3: "snd (snd (symtab_define (symtab_enter_scope st_f) ''f'' SYM_VAR ty_int (''t.c'', 5, 3))) = [] \<and>
   symtab_lookup (fst (symtab_define (symtab_enter_scope st_f) ''f'' SYM_VAR ty_int (''t.c'', 5, 3))) ''f''
     = Some (new_symbol (symtab_enter_scope st_f) ''f'' SYM_VAR ty_int (''t.c'', 5, 3))"
    using symtab_define_redefinition [of "symtab_enter_scope st_f" "''f''" SYM_VAR ty_int "(''t.c'', 5, 3)"]
      lookup_inner
    by (simp add: Let_def)
  from 1 2 3 nx lookup_st_f allowed_decl_f lookup_outer lookup_inner show ?thesis
    by simp
qed

section \<open>C integer arithmetic of the translator itself\<close>

text \<open>
  The translator computes constants in \<^verbatim>\<open>long long\<close>. C leaves signed overflow, a
  quotient that does not fit, and a shift by a negative or too large count undefined;
  each is a fault in the embedding.
\<close>

datatype fault = SignedOverflow | DivisionByZero | DivisionOverflow | ShiftOutOfRange | ReadPastEnd
  | OutOfFuel

definition LLONG_MIN :: int where "LLONG_MIN = - (2 ^ 63)"
definition LLONG_MAX :: int where "LLONG_MAX = 2 ^ 63 - 1"

definition ll_check :: "int \<Rightarrow> fault + int" where
  "ll_check v = (if LLONG_MIN \<le> v \<and> v \<le> LLONG_MAX then Inr v else Inl SignedOverflow)"

definition ll_add :: "int \<Rightarrow> int \<Rightarrow> fault + int" where "ll_add a b = ll_check (a + b)"
definition ll_sub :: "int \<Rightarrow> int \<Rightarrow> fault + int" where "ll_sub a b = ll_check (a - b)"
definition ll_mul :: "int \<Rightarrow> int \<Rightarrow> fault + int" where "ll_mul a b = ll_check (a * b)"
definition ll_neg :: "int \<Rightarrow> fault + int" where "ll_neg a = ll_check (- a)"

text \<open>C division truncates towards zero.\<close>

definition trunc_div :: "int \<Rightarrow> int \<Rightarrow> int" where
  "trunc_div a b = sgn a * sgn b * (\<bar>a\<bar> div \<bar>b\<bar>)"

definition trunc_mod :: "int \<Rightarrow> int \<Rightarrow> int" where
  "trunc_mod a b = a - b * trunc_div a b"

definition ll_div :: "int \<Rightarrow> int \<Rightarrow> fault + int" where
  "ll_div a b =
     (if b = 0 then Inl DivisionByZero
      else if a = LLONG_MIN \<and> b = - 1 then Inl DivisionOverflow
      else Inr (trunc_div a b))"

definition ll_mod :: "int \<Rightarrow> int \<Rightarrow> fault + int" where
  "ll_mod a b =
     (if b = 0 then Inl DivisionByZero
      else if a = LLONG_MIN \<and> b = - 1 then Inl DivisionOverflow
      else Inr (trunc_mod a b))"

definition ll_shl :: "int \<Rightarrow> int \<Rightarrow> fault + int" where
  "ll_shl a b =
     (if b < 0 \<or> 64 \<le> b \<or> a < 0 then Inl ShiftOutOfRange
      else if a * 2 ^ nat b \<le> LLONG_MAX then Inr (a * 2 ^ nat b)
      else Inl SignedOverflow)"

text \<open>Right shift of a negative value is arithmetic, as the usual compilers define it.\<close>

definition ll_shr :: "int \<Rightarrow> int \<Rightarrow> fault + int" where
  "ll_shr a b = (if b < 0 \<or> 64 \<le> b then Inl ShiftOutOfRange else Inr (a div 2 ^ nat b))"

definition of_bool_ll :: "bool \<Rightarrow> fault + int" where
  "of_bool_ll b = Inr (if b then 1 else 0)"

text \<open>Conversions to the 64-bit integer types (two's complement).\<close>

definition to_s64 :: "int \<Rightarrow> int" where
  "to_s64 v = (v + 2 ^ 63) mod 2 ^ 64 - 2 ^ 63"

definition to_u64 :: "int \<Rightarrow> int" where
  "to_u64 v = v mod 2 ^ 64"

section \<open>The syntax tree (ast.h, ast.c)\<close>

text \<open>
  The node kinds of the expressions, and of the two statements modelled below
  (\<^verbatim>\<open>case\<close> and \<^verbatim>\<open>return\<close>); the other statement and declaration kinds are not
  touched by the functions embedded here.
\<close>

datatype (plugins only: code) NodeKind =
    ND_INT_LIT | ND_FLOAT_LIT | ND_STRING_LIT | ND_CHAR_LIT | ND_IDENT
  | ND_NEG | ND_POS | ND_NOT | ND_BITNOT | ND_DEREF | ND_ADDR
  | ND_PRE_INC | ND_PRE_DEC | ND_POST_INC | ND_POST_DEC | ND_SIZEOF | ND_SIZEOF_TYPE
  | ND_ADD | ND_SUB | ND_MUL | ND_DIV | ND_MOD | ND_LSHIFT | ND_RSHIFT
  | ND_LT | ND_LE | ND_GT | ND_GE | ND_EQ | ND_NE
  | ND_BITAND | ND_BITOR | ND_BITXOR | ND_AND | ND_OR
  | ND_ASSIGN | ND_ADD_ASSIGN | ND_SUB_ASSIGN | ND_MUL_ASSIGN | ND_DIV_ASSIGN
  | ND_MOD_ASSIGN | ND_LSHIFT_ASSIGN | ND_RSHIFT_ASSIGN
  | ND_AND_ASSIGN | ND_OR_ASSIGN | ND_XOR_ASSIGN
  | ND_TERNARY | ND_COMMA | ND_CALL | ND_MEMBER | ND_MEMBER_PTR | ND_SUBSCRIPT
  | ND_CAST | ND_COMPOUND_LIT
  | ND_CASE | ND_RETURN

text \<open>
  A node: kind, type, the three child slots and the attributes the verified functions
  read (integer value, character value, name, cast type and cast operand). A NULL
  child is \<open>None\<close>. A floating literal keeps its type only.
\<close>

datatype Node = Node
    (nkind: NodeKind)
    (ntype: "Type option")
    (lhs: "Node option")
    (rhs: "Node option")
    (third: "Node option")
    (ival: int)
    (cval: int)
    (nname: string)
    (cast_type: "Type option")
    (cast_expr: "Node option")

definition node_new :: "NodeKind \<Rightarrow> Node" where
  "node_new k = Node k None None None None 0 0 [] None None"

definition node_unary :: "NodeKind \<Rightarrow> Node \<Rightarrow> Node" where
  "node_unary k operand = Node k None (Some operand) None None 0 0 [] None None"

definition node_binary :: "NodeKind \<Rightarrow> Node \<Rightarrow> Node \<Rightarrow> Node" where
  "node_binary k l r = Node k None (Some l) (Some r) None 0 0 [] None None"

definition node_int_lit :: "int \<Rightarrow> Type \<Rightarrow> Node" where
  "node_int_lit v ty = Node ND_INT_LIT (Some ty) None None None (to_u64 v) 0 [] None None"

definition node_ident :: "string \<Rightarrow> Node" where
  "node_ident name = Node ND_IDENT None None None None 0 0 name None None"

definition set_type :: "Node \<Rightarrow> Type \<Rightarrow> Node" where
  "set_type n ty =
     Node (nkind n) (Some ty) (lhs n) (rhs n) (third n) (ival n) (cval n) (nname n)
       (cast_type n) (cast_expr n)"

section \<open>Constant folding in the parser (parser.c, try_eval_const)\<close>

text \<open>
  \<^verbatim>\<open>try_eval_const\<close> returns false (\<open>Inr None\<close>), or true with a value
  (\<open>Inr (Some v)\<close>); \<open>Inl\<close> is a fault of the translator's own arithmetic. The operands
  of \<^verbatim>\<open>&&\<close> in the source are evaluated left to right and the evaluation stops at the
  first false one.
\<close>

definition eval_un :: "(int \<Rightarrow> fault + int) \<Rightarrow> fault + int option \<Rightarrow> fault + int option" where
  "eval_un f rl =
     (case rl of
        Inl e \<Rightarrow> Inl e
      | Inr None \<Rightarrow> Inr None
      | Inr (Some l) \<Rightarrow> (case f l of Inl e \<Rightarrow> Inl e | Inr v \<Rightarrow> Inr (Some v)))"

definition eval_bin ::
  "(int \<Rightarrow> int \<Rightarrow> fault + int) \<Rightarrow> fault + int option \<Rightarrow> fault + int option \<Rightarrow> fault + int option" where
  "eval_bin f rl rr =
     (case rl of
        Inl e \<Rightarrow> Inl e
      | Inr None \<Rightarrow> Inr None
      | Inr (Some l) \<Rightarrow>
          (case rr of
             Inl e \<Rightarrow> Inl e
           | Inr None \<Rightarrow> Inr None
           | Inr (Some r) \<Rightarrow> (case f l r of Inl e \<Rightarrow> Inl e | Inr v \<Rightarrow> Inr (Some v))))"

text \<open>Division and modulo fold only for a non-zero right operand.\<close>

definition eval_divmod ::
  "(int \<Rightarrow> int \<Rightarrow> fault + int) \<Rightarrow> fault + int option \<Rightarrow> fault + int option \<Rightarrow> fault + int option" where
  "eval_divmod f rl rr =
     (case rl of
        Inl e \<Rightarrow> Inl e
      | Inr None \<Rightarrow> Inr None
      | Inr (Some l) \<Rightarrow>
          (case rr of
             Inl e \<Rightarrow> Inl e
           | Inr None \<Rightarrow> Inr None
           | Inr (Some r) \<Rightarrow>
               (if r \<noteq> 0 then (case f l r of Inl e \<Rightarrow> Inl e | Inr v \<Rightarrow> Inr (Some v))
                else Inr None)))"

definition eval_ternary ::
  "fault + int option \<Rightarrow> fault + int option \<Rightarrow> fault + int option \<Rightarrow> fault + int option" where
  "eval_ternary rc rt re =
     (case rc of
        Inl e \<Rightarrow> Inl e
      | Inr None \<Rightarrow> Inr None
      | Inr (Some c) \<Rightarrow>
          (case rt of
             Inl e \<Rightarrow> Inl e
           | Inr None \<Rightarrow> Inr None
           | Inr (Some t) \<Rightarrow>
               (case re of
                  Inl e \<Rightarrow> Inl e
                | Inr None \<Rightarrow> Inr None
                | Inr (Some e) \<Rightarrow> Inr (Some (if c \<noteq> 0 then t else e)))))"

fun try_eval_const :: "Node option \<Rightarrow> fault + int option" where
  "try_eval_const None = Inr None"
| "try_eval_const (Some (Node k ty l r t iv cv nm ct ce)) =
     (if k = ND_INT_LIT then Inr (Some (to_s64 iv))
      else if k = ND_CHAR_LIT then Inr (Some cv)
      else
        (case k of
           ND_NEG \<Rightarrow> eval_un ll_neg (try_eval_const l)
         | ND_NOT \<Rightarrow> eval_un (\<lambda>l. of_bool_ll (l = 0)) (try_eval_const l)
         | ND_BITNOT \<Rightarrow> eval_un (\<lambda>l. Inr (NOT l)) (try_eval_const l)
         | ND_ADD \<Rightarrow> eval_bin ll_add (try_eval_const l) (try_eval_const r)
         | ND_SUB \<Rightarrow> eval_bin ll_sub (try_eval_const l) (try_eval_const r)
         | ND_MUL \<Rightarrow> eval_bin ll_mul (try_eval_const l) (try_eval_const r)
         | ND_DIV \<Rightarrow> eval_divmod ll_div (try_eval_const l) (try_eval_const r)
         | ND_MOD \<Rightarrow> eval_divmod ll_mod (try_eval_const l) (try_eval_const r)
         | ND_LSHIFT \<Rightarrow> eval_bin ll_shl (try_eval_const l) (try_eval_const r)
         | ND_RSHIFT \<Rightarrow> eval_bin ll_shr (try_eval_const l) (try_eval_const r)
         | ND_LT \<Rightarrow> eval_bin (\<lambda>l r. of_bool_ll (l < r)) (try_eval_const l) (try_eval_const r)
         | ND_LE \<Rightarrow> eval_bin (\<lambda>l r. of_bool_ll (l \<le> r)) (try_eval_const l) (try_eval_const r)
         | ND_GT \<Rightarrow> eval_bin (\<lambda>l r. of_bool_ll (l > r)) (try_eval_const l) (try_eval_const r)
         | ND_GE \<Rightarrow> eval_bin (\<lambda>l r. of_bool_ll (l \<ge> r)) (try_eval_const l) (try_eval_const r)
         | ND_EQ \<Rightarrow> eval_bin (\<lambda>l r. of_bool_ll (l = r)) (try_eval_const l) (try_eval_const r)
         | ND_NE \<Rightarrow> eval_bin (\<lambda>l r. of_bool_ll (l \<noteq> r)) (try_eval_const l) (try_eval_const r)
         | ND_BITAND \<Rightarrow> eval_bin (\<lambda>l r. Inr (l AND r)) (try_eval_const l) (try_eval_const r)
         | ND_BITOR \<Rightarrow> eval_bin (\<lambda>l r. Inr (l OR r)) (try_eval_const l) (try_eval_const r)
         | ND_BITXOR \<Rightarrow> eval_bin (\<lambda>l r. Inr (l XOR r)) (try_eval_const l) (try_eval_const r)
         | ND_AND \<Rightarrow>
             eval_bin (\<lambda>l r. of_bool_ll (l \<noteq> 0 \<and> r \<noteq> 0)) (try_eval_const l) (try_eval_const r)
         | ND_OR \<Rightarrow>
             eval_bin (\<lambda>l r. of_bool_ll (l \<noteq> 0 \<or> r \<noteq> 0)) (try_eval_const l) (try_eval_const r)
         | ND_TERNARY \<Rightarrow> eval_ternary (try_eval_const l) (try_eval_const r) (try_eval_const t)
         | ND_CAST \<Rightarrow> try_eval_const ce
         | _ \<Rightarrow> Inr None))"


subsection \<open>The four contexts that take a constant expression\<close>

text \<open>
  Array dimension (\<^verbatim>\<open>parse_declarator\<close>): the size expression is folded; a constant
  gives an array of that length (converted to \<^verbatim>\<open>int\<close>), anything else a VLA.
\<close>

definition array_dimension :: "Type \<Rightarrow> Node \<Rightarrow> fault + Type" where
  "array_dimension b sz =
     (case try_eval_const (Some sz) of
        Inl e \<Rightarrow> Inl e
      | Inr (Some cv) \<Rightarrow> Inr (type_array b (to_s32 cv))
      | Inr None \<Rightarrow> Inr (type_vla b))"

text \<open>
  Enum constant (\<^verbatim>\<open>parse_type_specifier\<close>): \<open>val\<close> is the running value; an
  initializer replaces it only when the parsed expression is an integer literal node.
  The result is the value stored in the constant's symbol.
\<close>

definition enum_constant_value :: "int \<Rightarrow> Node option \<Rightarrow> int" where
  "enum_constant_value val init =
     (case init of
        None \<Rightarrow> val
      | Some e \<Rightarrow> (if nkind e = ND_INT_LIT then to_s64 (ival e) else val))"

text \<open>Bitfield width (\<^verbatim>\<open>parse_type_specifier\<close>): the literal's value, and 1 otherwise.\<close>

definition bitfield_width :: "Node \<Rightarrow> int" where
  "bitfield_width bw = (if nkind bw = ND_INT_LIT then to_s32 (ival bw) else 1)"

text \<open>
  Case label (\<^verbatim>\<open>parse_stmt\<close>): \<^verbatim>\<open>case_val\<close> of the zero-filled node is set only
  for an integer literal node.
\<close>

definition case_label_value :: "Node \<Rightarrow> int" where
  "case_label_value e = (if nkind e = ND_INT_LIT then to_s64 (ival e) else 0)"

subsection \<open>Claim C5: constant expressions in the four contexts\<close>

text \<open>
  The tree \<^verbatim>\<open>parse_binary_expr\<close> builds for \<^verbatim>\<open>1 + 2\<close> (and for \<^verbatim>\<open>2 + 1\<close>): no
  folding happens while parsing, the node is an \<^verbatim>\<open>ND_ADD\<close> of two literals.
\<close>

definition one_plus_two :: Node where
  "one_plus_two =
     set_type (node_binary ND_ADD (node_int_lit 1 ty_int) (node_int_lit 2 ty_int)) ty_int"

definition two_plus_one :: Node where
  "two_plus_one =
     set_type (node_binary ND_ADD (node_int_lit 2 ty_int) (node_int_lit 1 ty_int)) ty_int"

lemma try_eval_const_one_plus_two: "try_eval_const (Some one_plus_two) = Inr (Some 3)"
  by (simp add: one_plus_two_def set_type_def node_binary_def node_int_lit_def eval_bin_def
        ll_add_def ll_check_def LLONG_MIN_def LLONG_MAX_def to_s64_def to_u64_def)

text \<open>
  C5 (the code departs from it). The folder evaluates \<^verbatim>\<open>1 + 2\<close> to 3 and the array
  dimension uses it, but \<^verbatim>\<open>enum { A = 1 + 2 }\<close> gives \<open>A\<close> the running value 0,
  \<^verbatim>\<open>case 1 + 2:\<close> records case value 0 and \<^verbatim>\<open>int x : 2 + 1;\<close> records width 1.
\<close>

theorem constant_contexts_ignore_folder:
  "try_eval_const (Some one_plus_two) = Inr (Some 3) \<and>
   array_dimension ty_int one_plus_two = Inr (type_array ty_int 3) \<and>
   enum_constant_value 0 (Some one_plus_two) = 0 \<and>
   case_label_value one_plus_two = 0 \<and>
   bitfield_width two_plus_one = 1"
proof -
  have "array_dimension ty_int one_plus_two = Inr (type_array ty_int 3)"
    by (simp add: array_dimension_def try_eval_const_one_plus_two to_s32_def)
  moreover have "nkind one_plus_two = ND_ADD" "nkind two_plus_one = ND_ADD"
    by (simp_all add: one_plus_two_def two_plus_one_def set_type_def node_binary_def)
  ultimately show ?thesis
    by (simp add: try_eval_const_one_plus_two enum_constant_value_def case_label_value_def
          bitfield_width_def)
qed

section \<open>Semantic analysis of the unary operators (sema.c, check_expr)\<close>

text \<open>\<^verbatim>\<open>ensure_type\<close>: a node without a type gets \<open>int\<close>. The type is returned as well.\<close>

definition ensure_type :: "Node \<Rightarrow> Node \<times> Type" where
  "ensure_type n =
     (case ntype n of
        Some ty \<Rightarrow> (n, ty)
      | None \<Rightarrow> (set_type n ty_int, ty_int))"

text \<open>\<^verbatim>\<open>decay_array\<close>: an array-typed node becomes a pointer to the element type.\<close>

definition decay_array :: "Node \<Rightarrow> Node" where
  "decay_array n =
     (case ntype n of
        None \<Rightarrow> n
      | Some ty \<Rightarrow>
          (if kind ty = TY_ARRAY
           then (case base ty of Some b \<Rightarrow> set_type n (type_ptr b) | None \<Rightarrow> n)
           else n))"

definition is_comparison :: "NodeKind \<Rightarrow> bool" where
  "is_comparison k \<longleftrightarrow>
     k = ND_LT \<or> k = ND_LE \<or> k = ND_GT \<or> k = ND_GE \<or> k = ND_EQ \<or> k = ND_NE"

text \<open>
  \<^verbatim>\<open>check_expr\<close> for literals, typed identifiers, the operators \<^verbatim>\<open>-\<close>, \<^verbatim>\<open>+\<close>,
  \<^verbatim>\<open>!\<close> and \<^verbatim>\<open>~\<close>, and the six comparisons. It returns the node as annotated and
  the diagnostics reported. \<open>None\<close> marks a node outside this fragment (other
  operators, an identifier that needs the symbol table) or a NULL operand.
\<close>

fun check_expr :: "Node \<Rightarrow> (Node \<times> string list) option" where
  "check_expr (Node k ty l r t iv cv nm ct ce) =
     (if is_comparison k then
        (case l of
           None \<Rightarrow> None
         | Some l0 \<Rightarrow>
             (case r of
                None \<Rightarrow> None
              | Some r0 \<Rightarrow>
                  (case check_expr l0 of
                     None \<Rightarrow> None
                   | Some (l1, d1) \<Rightarrow>
                       (case check_expr r0 of
                          None \<Rightarrow> None
                        | Some (r1, d2) \<Rightarrow>
                            (let l2 = decay_array (fst (ensure_type l1));
                                 r2 = decay_array (fst (ensure_type r1))
                             in Some (Node k (Some ty_int) (Some l2) (Some r2) t iv cv nm ct ce,
                                      d1 @ d2))))))
      else case k of
        ND_INT_LIT \<Rightarrow> Some (Node k ty l r t iv cv nm ct ce, [])
      | ND_FLOAT_LIT \<Rightarrow> Some (Node k ty l r t iv cv nm ct ce, [])
      | ND_CHAR_LIT \<Rightarrow> Some (Node k ty l r t iv cv nm ct ce, [])
      | ND_STRING_LIT \<Rightarrow> Some (Node k ty l r t iv cv nm ct ce, [])
      | ND_IDENT \<Rightarrow>
          (case ty of
             Some _ \<Rightarrow> Some (Node k ty l r t iv cv nm ct ce, [])
           | None \<Rightarrow> None)
      | ND_NEG \<Rightarrow>
          (case l of
             None \<Rightarrow> None
           | Some l0 \<Rightarrow>
               (case check_expr l0 of
                  None \<Rightarrow> None
                | Some (l1, d1) \<Rightarrow>
                    (let (l2, lt) = ensure_type l1;
                         d2 = (if \<not> type_is_arithmetic lt
                               then [''operand of unary +/- must be arithmetic''] else [])
                     in Some (Node k (Some (type_int_promote lt)) (Some l2) r t iv cv nm ct ce,
                              d1 @ d2))))
      | ND_POS \<Rightarrow>
          (case l of
             None \<Rightarrow> None
           | Some l0 \<Rightarrow>
               (case check_expr l0 of
                  None \<Rightarrow> None
                | Some (l1, d1) \<Rightarrow>
                    (let (l2, lt) = ensure_type l1;
                         d2 = (if \<not> type_is_arithmetic lt
                               then [''operand of unary +/- must be arithmetic''] else [])
                     in Some (Node k (Some (type_int_promote lt)) (Some l2) r t iv cv nm ct ce,
                              d1 @ d2))))
      | ND_NOT \<Rightarrow>
          (case l of
             None \<Rightarrow> None
           | Some l0 \<Rightarrow>
               (case check_expr l0 of
                  None \<Rightarrow> None
                | Some (l1, d1) \<Rightarrow>
                    (let (l2, lt) = ensure_type l1;
                         d2 = (if \<not> type_is_scalar lt
                               then [''operand of ! must be scalar''] else [])
                     in Some (Node k (Some ty_int) (Some l2) r t iv cv nm ct ce, d1 @ d2))))
      | ND_BITNOT \<Rightarrow>
          (case l of
             None \<Rightarrow> None
           | Some l0 \<Rightarrow>
               (case check_expr l0 of
                  None \<Rightarrow> None
                | Some (l1, d1) \<Rightarrow>
                    (let (l2, lt) = ensure_type l1;
                         d2 = (if \<not> type_is_integer lt
                               then [''operand of ~ must be integer''] else [])
                     in Some (Node k (Some (type_int_promote lt)) (Some l2) r t iv cv nm ct ce,
                              d1 @ d2))))
      | _ \<Rightarrow> None)"

subsection \<open>Claim C6: the types of the unary operators\<close>

text \<open>
  A variable \<open>x\<close> of type \<open>double\<close> as the parser leaves it, and \<^verbatim>\<open>-x\<close> as
  \<^verbatim>\<open>parse_unary_expr\<close> builds it (typed with the operand's type).
\<close>

definition double_x :: Node where
  "double_x = set_type (node_ident ''x'') ty_double"

definition neg_double_x :: Node where
  "neg_double_x = set_type (node_unary ND_NEG double_x) ty_double"

text \<open>
  C6 (the code departs from it). After semantic analysis \<^verbatim>\<open>-x\<close> for a \<open>double\<close>
  \<open>x\<close> has type \<open>int\<close>, reported without a diagnostic: \<^verbatim>\<open>type_int_promote\<close> sends
  every type of rank 0, the floating types among them, to \<open>int\<close>, where
  \<^verbatim>\<open>type_default_arg_promote\<close> promotes integer types only.
\<close>

theorem check_expr_neg_double:
  "check_expr neg_double_x = Some (set_type neg_double_x ty_int, []) \<and>
   type_int_promote ty_double = ty_int \<and>
   type_int_promote ty_float = ty_int \<and>
   type_int_promote ty_ldouble = ty_int \<and>
   type_default_arg_promote ty_double = ty_double \<and>
   ty_int \<noteq> ty_double"
  by (simp add: neg_double_x_def double_x_def set_type_def node_unary_def node_ident_def
        ensure_type_def type_int_promote_def type_default_arg_promote_def
        type_is_arithmetic_def type_is_float_def is_comparison_def ty_defs)


section \<open>Code generation (codegen.c)\<close>

subsection \<open>Formatting of integers (\<^verbatim>\<open>%d\<close>, \<^verbatim>\<open>%lld\<close>)\<close>

definition digit_char :: "nat \<Rightarrow> char" where
  "digit_char d = ''0123456789'' ! d"

function show_nat :: "nat \<Rightarrow> string" where
  "show_nat n = (if n < 10 then [digit_char n] else show_nat (n div 10) @ [digit_char (n mod 10)])"
  by pat_completeness auto
termination
  by (relation "measure id") auto

declare show_nat.simps [simp del]

definition show_int :: "int \<Rightarrow> string" where
  "show_int i = (if i < 0 then CHR ''-'' # show_nat (nat (- i)) else show_nat (nat i))"

subsection \<open>Helpers\<close>

definition type_is_ptr :: "Type \<Rightarrow> bool" where
  "type_is_ptr t \<longleftrightarrow> kind t = TY_PTR"

definition type_is_array :: "Type \<Rightarrow> bool" where
  "type_is_array t \<longleftrightarrow> kind t = TY_ARRAY \<or> kind t = TY_VLA"

definition type_is_u64 :: "Type option \<Rightarrow> bool" where
  "type_is_u64 t = (case t of None \<Rightarrow> False | Some ty \<Rightarrow> kind ty = TY_LLONG)"

definition expr_is_u64 :: "Node option \<Rightarrow> bool" where
  "expr_is_u64 n = (case n of None \<Rightarrow> False | Some m \<Rightarrow> type_is_u64 (ntype m))"

definition type_is_double :: "Type option \<Rightarrow> bool" where
  "type_is_double t =
     (case t of None \<Rightarrow> False | Some ty \<Rightarrow> kind ty = TY_DOUBLE \<or> kind ty = TY_LDOUBLE)"

definition expr_is_double :: "Node option \<Rightarrow> bool" where
  "expr_is_double n = (case n of None \<Rightarrow> False | Some m \<Rightarrow> type_is_double (ntype m))"

definition type_sz :: "Type option \<Rightarrow> int" where
  "type_sz t = (case t of None \<Rightarrow> 4 | Some ty \<Rightarrow> (if tsize ty > 0 then tsize ty else 4))"

definition is_aggregate :: "Type option \<Rightarrow> bool" where
  "is_aggregate t =
     (case t of None \<Rightarrow> False | Some ty \<Rightarrow> kind ty = TY_STRUCT \<or> kind ty = TY_UNION)"

subsection \<open>Expressions: literals and the binary operators\<close>

text \<open>
  \<^verbatim>\<open>gen_expr\<close> appends text to the output buffer; the embedding returns the text
  appended. \<^verbatim>\<open>gen_f64_val\<close> and the binary-operator case are written over the text
  of their operands.
\<close>

definition gen_f64_val :: "Node \<Rightarrow> string \<Rightarrow> string" where
  "gen_f64_val n e =
     (if expr_is_double (Some n) then ''rt.f64('' @ e @ '')''
      else if expr_is_u64 (Some n) then ''Number('' @ e @ '')''
      else e)"

definition binop_text :: "NodeKind \<Rightarrow> string" where
  "binop_text k =
     (case k of
        ND_ADD \<Rightarrow> ''+'' | ND_SUB \<Rightarrow> ''-'' | ND_MUL \<Rightarrow> ''*'' | ND_DIV \<Rightarrow> ''/''
      | ND_MOD \<Rightarrow> ''%'' | ND_LSHIFT \<Rightarrow> ''<<'' | ND_RSHIFT \<Rightarrow> ''>>''
      | ND_LT \<Rightarrow> ''<'' | ND_LE \<Rightarrow> ''<='' | ND_GT \<Rightarrow> ''>'' | ND_GE \<Rightarrow> ''>=''
      | ND_EQ \<Rightarrow> ''==='' | ND_NE \<Rightarrow> ''!==''
      | ND_BITAND \<Rightarrow> ''&'' | ND_BITOR \<Rightarrow> ''|'' | ND_BITXOR \<Rightarrow> ''^''
      | _ \<Rightarrow> ''+'')"

definition elem_size :: "Node \<Rightarrow> int" where
  "elem_size n =
     (case ntype n of
        None \<Rightarrow> 1
      | Some ty \<Rightarrow> (case base ty of None \<Rightarrow> 1 | Some b \<Rightarrow> type_sz (Some b)))"

definition ptr_or_array :: "Node \<Rightarrow> bool" where
  "ptr_or_array n =
     (case ntype n of None \<Rightarrow> False | Some ty \<Rightarrow> type_is_ptr ty \<or> type_is_array ty)"

definition gen_binary ::
  "NodeKind \<Rightarrow> Type option \<Rightarrow> Node \<Rightarrow> Node \<Rightarrow> string \<Rightarrow> string \<Rightarrow> string" where
  "gen_binary k ty ln rn le re =
     (let op = binop_text k;
          f64mode = (expr_is_double (Some ln) \<or> expr_is_double (Some rn) \<or> type_is_double ty)
      in if f64mode then
           (if is_comparison k
            then ''(('' @ gen_f64_val ln le @ '' '' @ op @ '' '' @ gen_f64_val rn re @ '') ? 1 : 0)''
            else ''rt.f64bits('' @ gen_f64_val ln le @ '' '' @ op @ '' '' @ gen_f64_val rn re @ '')'')
         else
           (let u64mode = (expr_is_u64 (Some ln) \<or> expr_is_u64 (Some rn) \<or> type_is_u64 ty)
            in if u64mode then
                 ''('' @ (if \<not> expr_is_u64 (Some ln) then ''BigInt('' @ le @ '')'' else le)
                 @ '' '' @ op @ '' ''
                 @ (if \<not> expr_is_u64 (Some rn) then ''BigInt('' @ re @ '')'' else re) @ '')''
               else
                 (let lp = ptr_or_array ln; rp = ptr_or_array rn
                  in if (k = ND_ADD \<or> k = ND_SUB) \<and> lp \<and> \<not> rp then
                       ''('' @ le @ '' '' @ op @ '' '' @ re
                       @ (if elem_size ln > 1 then '' * '' @ show_int (elem_size ln) else [])
                       @ '')''
                     else if k = ND_ADD \<and> rp \<and> \<not> lp then
                       ''('' @ le
                       @ (if elem_size rn > 1 then '' * '' @ show_int (elem_size rn) else [])
                       @ '' + '' @ re @ '')''
                     else if k = ND_SUB \<and> lp \<and> rp then
                       ''(('' @ le @ '' - '' @ re @ '')''
                       @ (if elem_size ln > 1 then '' / '' @ show_int (elem_size ln) else [])
                       @ '' | 0)''
                     else if k = ND_DIV \<and> (case ty of None \<Rightarrow> False | Some t \<Rightarrow> type_is_integer t) then
                       ''(('' @ le @ '' / '' @ re @ '') | 0)''
                     else if is_comparison k then
                       ''(('' @ le @ '' '' @ op @ '' '' @ re @ '') ? 1 : 0)''
                     else
                       ''('' @ le @ '' '' @ op @ '' '' @ re @ '')'')))"

definition is_binary_op :: "NodeKind \<Rightarrow> bool" where
  "is_binary_op k \<longleftrightarrow>
     k = ND_ADD \<or> k = ND_SUB \<or> k = ND_MUL \<or> k = ND_DIV \<or> k = ND_MOD \<or>
     k = ND_LSHIFT \<or> k = ND_RSHIFT \<or> is_comparison k \<or>
     k = ND_BITAND \<or> k = ND_BITOR \<or> k = ND_BITXOR"

text \<open>
  \<^verbatim>\<open>gen_expr\<close> on integer and character literals and the binary operators; \<open>None\<close>
  marks a node outside this fragment or a binary node with a NULL operand.
\<close>

fun gen_expr :: "Node option \<Rightarrow> string option" where
  "gen_expr None = Some ''0''"
| "gen_expr (Some (Node k ty l r t iv cv nm ct ce)) =
     (if k = ND_INT_LIT then Some (show_int (to_s64 iv))
      else if k = ND_CHAR_LIT then Some (show_int cv)
      else if is_binary_op k then
        (case l of
           None \<Rightarrow> None
         | Some ln \<Rightarrow>
             (case r of
                None \<Rightarrow> None
              | Some rn \<Rightarrow>
                  (case gen_expr l of
                     None \<Rightarrow> None
                   | Some le \<Rightarrow>
                       (case gen_expr r of
                          None \<Rightarrow> None
                        | Some re \<Rightarrow> Some (gen_binary k ty ln rn le re)))))
      else None)"

subsection \<open>Claim C7: comparisons yield 0 or 1\<close>

text \<open>
  The comparison \<^verbatim>\<open>1LL < 2LL\<close> as the parser builds it, and \<^verbatim>\<open>1 < 2\<close> on \<open>int\<close>
  operands.
\<close>

definition lt_llong :: Node where
  "lt_llong = set_type (node_binary ND_LT (node_int_lit 1 ty_llong) (node_int_lit 2 ty_llong)) ty_int"

definition lt_int :: Node where
  "lt_int = set_type (node_binary ND_LT (node_int_lit 1 ty_int) (node_int_lit 2 ty_int)) ty_int"

lemma show_int_1_2: "show_int 1 = ''1''" "show_int 2 = ''2''"
  by (simp_all add: show_int_def show_nat.simps digit_char_def)

text \<open>
  C7 (the code departs from it). Semantic analysis types the comparison \<open>int\<close>, and
  on \<open>int\<close> operands the emitted text ends in \<^verbatim>\<open>? 1 : 0\<close>. With a \<open>long long\<close>
  operand the BigInt branch emits the bare JavaScript comparison \<^verbatim>\<open>(1 < 2)\<close>, whose
  value is a boolean. The branch computes \<^verbatim>\<open>is_cmp\<close> and never uses it; the branch for
  \<open>double\<close> operands, over any operand texts, does end in \<^verbatim>\<open>? 1 : 0\<close>.
\<close>

theorem gen_expr_comparison_llong:
  "check_expr lt_llong = Some (lt_llong, []) \<and> ntype lt_llong = Some ty_int \<and>
   gen_expr (Some lt_llong) = Some ''(1 < 2)'' \<and>
   gen_expr (Some lt_int) = Some ''((1 < 2) ? 1 : 0)'' \<and>
   gen_binary ND_LT (Some ty_int) double_x double_x ''a'' ''b''
     = ''((rt.f64(a) < rt.f64(b)) ? 1 : 0)''"
proof -
  have 1: "check_expr lt_llong = Some (lt_llong, [])" "ntype lt_llong = Some ty_int"
    by (simp_all add: lt_llong_def set_type_def node_binary_def node_int_lit_def
          is_comparison_def ensure_type_def decay_array_def ty_defs)
  have 2: "gen_expr (Some lt_llong) = Some ''(1 < 2)''"
    by (simp add: lt_llong_def set_type_def node_binary_def node_int_lit_def
          is_binary_op_def is_comparison_def gen_binary_def binop_text_def
          expr_is_double_def type_is_double_def expr_is_u64_def type_is_u64_def
          to_s64_def to_u64_def show_int_1_2 ty_defs)
  have 3: "gen_expr (Some lt_int) = Some ''((1 < 2) ? 1 : 0)''"
    by (simp add: lt_int_def set_type_def node_binary_def node_int_lit_def
          is_binary_op_def is_comparison_def gen_binary_def binop_text_def
          expr_is_double_def type_is_double_def expr_is_u64_def type_is_u64_def
          ptr_or_array_def type_is_ptr_def type_is_array_def
          to_s64_def to_u64_def show_int_1_2 ty_defs)
  have 4: "gen_binary ND_LT (Some ty_int) double_x double_x ''a'' ''b''
     = ''((rt.f64(a) < rt.f64(b)) ? 1 : 0)''"
    by (simp add: gen_binary_def binop_text_def is_comparison_def gen_f64_val_def
          expr_is_double_def type_is_double_def double_x_def set_type_def node_ident_def ty_defs)
  from 1 2 3 4 show ?thesis by simp
qed

subsection \<open>Statements: \<^verbatim>\<open>return\<close>\<close>

text \<open>
  The generator state: the output buffer, the indentation level and the return type of
  the function being emitted.
\<close>

record CodeGen =
  out :: string
  indent :: int
  current_func_ret_type :: "Type option"

definition emit :: "CodeGen \<Rightarrow> string \<Rightarrow> CodeGen" where
  "emit cg s = cg\<lparr>out := out cg @ s\<rparr>"

definition indent_text :: "CodeGen \<Rightarrow> string" where
  "indent_text cg = concat (replicate (nat (indent cg)) ''  '')"

definition emit_indent :: "CodeGen \<Rightarrow> CodeGen" where
  "emit_indent cg = emit cg (indent_text cg)"

definition emitln :: "CodeGen \<Rightarrow> string \<Rightarrow> CodeGen" where
  "emitln cg s = emit (emit (emit_indent cg) s) [CHR 0x0A]"

text \<open>The first two statements \<^verbatim>\<open>gen_func\<close> emits into a function body.\<close>

definition gen_func_entry :: "CodeGen \<Rightarrow> CodeGen" where
  "gen_func_entry cg = emitln (emitln cg ''const saved_sp = rt.mem.sp;'') ''const bp = rt.mem.sp;''"

text \<open>
  The \<^verbatim>\<open>ND_RETURN\<close> case of \<^verbatim>\<open>gen_stmt\<close>. The expression generator is a
  parameter \<open>gen\<close>: it takes the state and the expression and returns the state with
  the expression's text appended.
\<close>

definition gen_stmt_return :: "(CodeGen \<Rightarrow> Node option \<Rightarrow> CodeGen) \<Rightarrow> CodeGen \<Rightarrow> Node \<Rightarrow> CodeGen" where
  "gen_stmt_return gen cg n =
     (if is_aggregate (current_func_ret_type cg) \<and> lhs n \<noteq> None then
        (let cg1 = emit_indent cg;
             cg2 = emit cg1 ''rt.memcpy(p___retptr, '';
             cg3 = gen cg2 (lhs n);
             cg4 = emit cg3 ('', '' @ show_int (type_sz (current_func_ret_type cg3)) @ '');'' @ [CHR 0x0A])
         in emitln cg4 ''rt.mem.sp = saved_sp; return p___retptr;'')
      else if lhs n \<noteq> None then
        (let cg1 = emit_indent cg;
             cg2 = emit cg1 ''var __ret = '';
             cg3 = gen cg2 (lhs n)
         in emit cg3 (''; rt.mem.sp = saved_sp; return __ret;'' @ [CHR 0x0A]))
      else emitln cg ''rt.mem.sp = saved_sp; return;'')"

subsection \<open>Claim C9: the return expression is evaluated before the stack pointer is restored\<close>

text \<open>
  C9. Take a \<^verbatim>\<open>return e;\<close> in a function whose return type is not a struct or
  union, and let \<open>E\<close> be the text the expression generator appends for \<open>e\<close>. The
  statement appends, in this order: the indentation, \<^verbatim>\<open>var __ret = \<close>, \<open>E\<close>, then
  \<^verbatim>\<open>rt.mem.sp = saved_sp\<close>, then \<^verbatim>\<open>return __ret\<close>; nothing emitted before is changed,
  and the restoration follows all of \<open>E\<close>. \<^verbatim>\<open>saved_sp\<close> is the constant the function
  entry binds to \<^verbatim>\<open>rt.mem.sp\<close>.
\<close>

theorem gen_stmt_return_order:
  assumes "\<not> is_aggregate (current_func_ret_type cg)"
    and "lhs n = Some e"
    and "gen (emit (emit_indent cg) ''var __ret = '') (Some e)
           = emit (emit (emit_indent cg) ''var __ret = '') E"
  shows "out (gen_stmt_return gen cg n) =
           out cg @ indent_text cg @ ''var __ret = '' @ E @ ''; ''
           @ ''rt.mem.sp = saved_sp'' @ ''; '' @ ''return __ret;'' @ [CHR 0x0A] \<and>
         out (gen_func_entry cg0) =
           out cg0 @ indent_text cg0 @ ''const saved_sp = rt.mem.sp;'' @ [CHR 0x0A]
           @ indent_text cg0 @ ''const bp = rt.mem.sp;'' @ [CHR 0x0A]"
  using assms
  by (simp add: gen_stmt_return_def gen_func_entry_def emitln_def emit_indent_def emit_def
        indent_text_def Let_def)

text \<open>\<^verbatim>\<open>return 1 < 2;\<close> in a function returning \<open>int\<close>, at indentation level 1.\<close>

definition gen_expr_emit :: "CodeGen \<Rightarrow> Node option \<Rightarrow> CodeGen" where
  "gen_expr_emit cg n = emit cg (case gen_expr n of Some t \<Rightarrow> t | None \<Rightarrow> [])"

definition cg_in_int_function :: CodeGen where
  "cg_in_int_function = \<lparr>out = ''function _f() {'', indent = 1, current_func_ret_type = Some ty_int\<rparr>"

definition return_lt_int :: Node where
  "return_lt_int = node_unary ND_RETURN lt_int"

theorem gen_stmt_return_order_witness:
  "\<not> is_aggregate (current_func_ret_type cg_in_int_function) \<and>
   lhs return_lt_int = Some lt_int \<and>
   out (gen_stmt_return gen_expr_emit cg_in_int_function return_lt_int) =
     ''function _f() {  var __ret = ((1 < 2) ? 1 : 0); rt.mem.sp = saved_sp; return __ret;'' @ [CHR 0x0A]"
proof -
  have a: "\<not> is_aggregate (current_func_ret_type cg_in_int_function)"
    by (simp add: cg_in_int_function_def is_aggregate_def ty_defs)
  have b: "lhs return_lt_int = Some lt_int"
    by (simp add: return_lt_int_def node_unary_def)
  have g: "gen_expr (Some lt_int) = Some ''((1 < 2) ? 1 : 0)''"
    by (simp add: lt_int_def set_type_def node_binary_def node_int_lit_def
          is_binary_op_def is_comparison_def gen_binary_def binop_text_def
          expr_is_double_def type_is_double_def expr_is_u64_def type_is_u64_def
          ptr_or_array_def type_is_ptr_def type_is_array_def
          to_s64_def to_u64_def show_int_1_2 ty_defs)
  have c: "gen_expr_emit (emit (emit_indent cg_in_int_function) ''var __ret = '') (Some lt_int)
      = emit (emit (emit_indent cg_in_int_function) ''var __ret = '') ''((1 < 2) ? 1 : 0)''"
    by (simp add: gen_expr_emit_def g)
  have i: "indent_text cg_in_int_function = ''  ''"
    by (simp add: indent_text_def cg_in_int_function_def)
  from gen_stmt_return_order
    [where gen = gen_expr_emit and cg = cg_in_int_function and n = return_lt_int
       and e = lt_int and E = "''((1 < 2) ? 1 : 0)''", OF a b c]
  have
    "out (gen_stmt_return gen_expr_emit cg_in_int_function return_lt_int) =
       out cg_in_int_function @ indent_text cg_in_int_function @ ''var __ret = ''
       @ ''((1 < 2) ? 1 : 0)'' @ ''; '' @ ''rt.mem.sp = saved_sp'' @ ''; '' @ ''return __ret;''
       @ [CHR 0x0A]"
    by (rule conjunct1)
  with a b i show ?thesis
    by (simp add: cg_in_int_function_def)
qed

section \<open>Binary expressions in the parser (parser.c, parse_binary_expr)\<close>

text \<open>
  The tokens of an expression built from integer literals and binary operators, and
  the end of the input. The lexer state is the list of the tokens not yet consumed:
  \<^verbatim>\<open>TOK\<close> is its head, \<^verbatim>\<open>NEXT()\<close> drops it.
\<close>

datatype TokenKind =
    TK_EOF | TK_INT_LIT
  | TK_AMP | TK_STAR | TK_PLUS | TK_MINUS | TK_SLASH | TK_PERCENT
  | TK_LSHIFT | TK_RSHIFT | TK_LT | TK_GT | TK_LE | TK_GE | TK_EQ | TK_NE
  | TK_CARET | TK_PIPE | TK_AND | TK_OR | TK_SEMICOLON

record Token =
  tok_kind :: TokenKind
  tok_ival :: int
  lit_suffix :: nat

definition LIT_UNSIGNED :: nat where "LIT_UNSIGNED = 1"
definition LIT_LONG :: nat where "LIT_LONG = 2"
definition LIT_LONGLONG :: nat where "LIT_LONGLONG = 4"

definition tok :: "Token list \<Rightarrow> Token" where
  "tok ts = (case ts of [] \<Rightarrow> \<lparr>tok_kind = TK_EOF, tok_ival = 0, lit_suffix = 0\<rparr> | t # _ \<Rightarrow> t)"

fun get_precedence :: "TokenKind \<Rightarrow> int" where
  "get_precedence TK_STAR = 13"
| "get_precedence TK_SLASH = 13"
| "get_precedence TK_PERCENT = 13"
| "get_precedence TK_PLUS = 12"
| "get_precedence TK_MINUS = 12"
| "get_precedence TK_LSHIFT = 11"
| "get_precedence TK_RSHIFT = 11"
| "get_precedence TK_LT = 10"
| "get_precedence TK_LE = 10"
| "get_precedence TK_GT = 10"
| "get_precedence TK_GE = 10"
| "get_precedence TK_EQ = 9"
| "get_precedence TK_NE = 9"
| "get_precedence TK_AMP = 8"
| "get_precedence TK_CARET = 7"
| "get_precedence TK_PIPE = 6"
| "get_precedence TK_AND = 5"
| "get_precedence TK_OR = 4"
| "get_precedence _ = - 1"

fun binop_kind :: "TokenKind \<Rightarrow> NodeKind" where
  "binop_kind TK_STAR = ND_MUL"
| "binop_kind TK_SLASH = ND_DIV"
| "binop_kind TK_PERCENT = ND_MOD"
| "binop_kind TK_PLUS = ND_ADD"
| "binop_kind TK_MINUS = ND_SUB"
| "binop_kind TK_LSHIFT = ND_LSHIFT"
| "binop_kind TK_RSHIFT = ND_RSHIFT"
| "binop_kind TK_LT = ND_LT"
| "binop_kind TK_LE = ND_LE"
| "binop_kind TK_GT = ND_GT"
| "binop_kind TK_GE = ND_GE"
| "binop_kind TK_EQ = ND_EQ"
| "binop_kind TK_NE = ND_NE"
| "binop_kind TK_AMP = ND_BITAND"
| "binop_kind TK_PIPE = ND_BITOR"
| "binop_kind TK_CARET = ND_BITXOR"
| "binop_kind TK_AND = ND_AND"
| "binop_kind TK_OR = ND_OR"
| "binop_kind _ = ND_ADD"

text \<open>
  The operand of a binary operator, \<^verbatim>\<open>parse_cast_expr\<close>, for an integer literal (the
  case \<^verbatim>\<open>TK_INT_LIT\<close> of \<^verbatim>\<open>parse_primary_expr\<close>); \<open>None\<close> is an operand of another
  form, which is not covered here.
\<close>

definition int_lit_type :: "nat \<Rightarrow> Type" where
  "int_lit_type suffix =
     (if suffix AND LIT_UNSIGNED \<noteq> 0 then
        (if suffix AND LIT_LONGLONG \<noteq> 0 then ty_ullong
         else if suffix AND LIT_LONG \<noteq> 0 then ty_ulong
         else ty_uint)
      else
        (if suffix AND LIT_LONGLONG \<noteq> 0 then ty_llong
         else if suffix AND LIT_LONG \<noteq> 0 then ty_long
         else ty_int))"

definition parse_cast_expr :: "Token list \<Rightarrow> (Node \<times> Token list) option" where
  "parse_cast_expr ts =
     (if tok_kind (tok ts) = TK_INT_LIT
      then Some (node_int_lit (tok_ival (tok ts)) (int_lit_type (lit_suffix (tok ts))), tl ts)
      else None)"

text \<open>The result type the parser gives a binary node whose operands are both typed.\<close>

definition binary_result_type :: "Node \<Rightarrow> Node" where
  "binary_result_type n =
     (case (lhs n, rhs n) of
        (Some l, Some r) \<Rightarrow>
          (case (ntype l, ntype r) of
             (Some lt, Some rt) \<Rightarrow>
               if is_comparison (nkind n) then set_type n ty_int
               else if nkind n = ND_AND \<or> nkind n = ND_OR then set_type n ty_int
               else if type_is_ptr lt then set_type n lt
               else if type_is_ptr rt then set_type n rt
               else set_type n (type_usual_arith lt rt)
           | _ \<Rightarrow> n)
      | _ \<Rightarrow> n)"

text \<open>
  Precedence climbing. \<open>parse_binary_loop\<close> is the loop of \<^verbatim>\<open>parse_binary_expr\<close> with
  the left operand built so far; the first argument bounds the number of calls.
\<close>

fun parse_binary_expr :: "nat \<Rightarrow> Token list \<Rightarrow> int \<Rightarrow> (Node \<times> Token list) option"
and parse_binary_loop :: "nat \<Rightarrow> Node \<Rightarrow> Token list \<Rightarrow> int \<Rightarrow> (Node \<times> Token list) option"
where
  "parse_binary_expr 0 ts min_prec = None"
| "parse_binary_expr (Suc f) ts min_prec =
     (case parse_cast_expr ts of
        None \<Rightarrow> None
      | Some (l, ts1) \<Rightarrow> parse_binary_loop f l ts1 min_prec)"
| "parse_binary_loop 0 l ts min_prec = None"
| "parse_binary_loop (Suc f) l ts min_prec =
     (let prec = get_precedence (tok_kind (tok ts)) in
      if prec < min_prec then Some (l, ts)
      else
        (case parse_binary_expr f (tl ts) (prec + 1) of
           None \<Rightarrow> None
         | Some (r, ts2) \<Rightarrow>
             parse_binary_loop f
               (binary_result_type (node_binary (binop_kind (tok_kind (tok ts))) l r))
               ts2 min_prec))"

subsection \<open>Two expressions and their trees\<close>

definition int_tok :: "int \<Rightarrow> Token" where
  "int_tok v = \<lparr>tok_kind = TK_INT_LIT, tok_ival = v, lit_suffix = 0\<rparr>"

definition op_tok :: "TokenKind \<Rightarrow> Token" where
  "op_tok k = \<lparr>tok_kind = k, tok_ival = 0, lit_suffix = 0\<rparr>"

text \<open>The tokens of \<^verbatim>\<open>1 + 2 * 3\<close> and the tree of \<^verbatim>\<open>1 + (2 * 3)\<close>.\<close>

definition tokens_1_plus_2_times_3 :: "Token list" where
  "tokens_1_plus_2_times_3 =
     [int_tok 1, op_tok TK_PLUS, int_tok 2, op_tok TK_STAR, int_tok 3]"

definition tree_1_plus_2_times_3 :: Node where
  "tree_1_plus_2_times_3 =
     set_type (node_binary ND_ADD (node_int_lit 1 ty_int)
       (set_type (node_binary ND_MUL (node_int_lit 2 ty_int) (node_int_lit 3 ty_int)) ty_int))
       ty_int"

text \<open>The tokens of \<^verbatim>\<open>0 && 0 || 1\<close> and the tree of \<^verbatim>\<open>(0 && 0) || 1\<close>.\<close>

definition tokens_0_and_0_or_1 :: "Token list" where
  "tokens_0_and_0_or_1 =
     [int_tok 0, op_tok TK_AND, int_tok 0, op_tok TK_OR, int_tok 1]"

definition tree_0_and_0_or_1 :: Node where
  "tree_0_and_0_or_1 =
     set_type (node_binary ND_OR
       (set_type (node_binary ND_AND (node_int_lit 0 ty_int) (node_int_lit 0 ty_int)) ty_int)
       (node_int_lit 1 ty_int)) ty_int"

lemma type_usual_arith_int: "type_usual_arith ty_int ty_int = ty_int"
  by (simp add: type_usual_arith_def type_int_promote_def ty_defs new_type_def Let_def)

lemmas parse_defs = tok_def int_tok_def op_tok_def parse_cast_expr_def int_lit_type_def
  binary_result_type_def node_binary_def node_int_lit_def set_type_def is_comparison_def
  type_is_ptr_def LIT_UNSIGNED_def LIT_LONG_def LIT_LONGLONG_def

lemmas fold_defs = set_type_def node_binary_def node_int_lit_def eval_bin_def ll_add_def
  ll_mul_def ll_check_def of_bool_ll_def LLONG_MIN_def LLONG_MAX_def to_s64_def to_u64_def


section \<open>The preprocessor (preprocess.c)\<close>

subsection \<open>Characters and C strings\<close>

text \<open>
  In the macro table, in macro expansion and in the directives a C string is the list
  of its characters before the terminating NUL; a pointer into it is the remaining
  suffix, and reading at the terminator yields NUL. None of these functions moves a
  pointer behind the terminator. The expression evaluator can, and has its own model
  of the memory further down.
\<close>

definition cur :: "string \<Rightarrow> char" where
  "cur p = (case p of [] \<Rightarrow> CHR 0x00 | c # _ \<Rightarrow> c)"

definition is_digit :: "char \<Rightarrow> bool" where
  "is_digit c \<longleftrightarrow> (48::nat) \<le> of_char c \<and> (of_char c :: nat) \<le> 57"

definition is_alpha :: "char \<Rightarrow> bool" where
  "is_alpha c \<longleftrightarrow>
     ((65::nat) \<le> of_char c \<and> (of_char c :: nat) \<le> 90) \<or>
     ((97::nat) \<le> of_char c \<and> (of_char c :: nat) \<le> 122)"

definition is_alnum :: "char \<Rightarrow> bool" where
  "is_alnum c \<longleftrightarrow> is_alpha c \<or> is_digit c"

definition is_ident_char :: "char \<Rightarrow> bool" where
  "is_ident_char c \<longleftrightarrow> is_alnum c \<or> c = CHR ''_''"

definition is_blank :: "char \<Rightarrow> bool" where
  "is_blank c \<longleftrightarrow> c = CHR '' '' \<or> c = CHR 0x09"

definition skip_blanks :: "string \<Rightarrow> string" where
  "skip_blanks p = dropWhile is_blank p"

text \<open>The value of a plain \<^verbatim>\<open>char\<close> (signed, as on the usual targets).\<close>

definition char_value :: "char \<Rightarrow> int" where
  "char_value c = (if (of_char c :: nat) \<ge> 128 then int (of_char c) - 256 else int (of_char c))"

subsection \<open>The macro table\<close>

record Macro =
  mac_name :: string
  mac_body :: string
  mac_params :: "string list"
  is_func :: bool
  is_variadic :: bool

definition MACRO_TABLE_SIZE :: nat where
  "MACRO_TABLE_SIZE = 1024"

definition macro_hash :: "string \<Rightarrow> nat" where
  "macro_hash name =
     unat (foldl (\<lambda>h c. h * 31 + of_char c) (0 :: 32 word) name) mod MACRO_TABLE_SIZE"

type_synonym MacroTable = "nat \<Rightarrow> Macro list"

fun macro_chain_find :: "Macro list \<Rightarrow> string \<Rightarrow> Macro option" where
  "macro_chain_find [] name = None"
| "macro_chain_find (m # ms) name =
     (if mac_name m = name then Some m else macro_chain_find ms name)"

definition find_macro :: "MacroTable \<Rightarrow> string \<Rightarrow> Macro option" where
  "find_macro tbl name = macro_chain_find (tbl (macro_hash name)) name"

fun macro_chain_update ::
  "Macro list \<Rightarrow> string \<Rightarrow> string \<Rightarrow> bool \<Rightarrow> string list \<Rightarrow> bool \<Rightarrow> Macro list option" where
  "macro_chain_update [] name b f ps v = None"
| "macro_chain_update (m # ms) name b f ps v =
     (if mac_name m = name
      then Some (m\<lparr>mac_body := b, mac_params := ps, is_func := f, is_variadic := v\<rparr> # ms)
      else (case macro_chain_update ms name b f ps v of
              None \<Rightarrow> None
            | Some ms' \<Rightarrow> Some (m # ms')))"

definition define_macro ::
  "MacroTable \<Rightarrow> string \<Rightarrow> string \<Rightarrow> bool \<Rightarrow> string list \<Rightarrow> bool \<Rightarrow> MacroTable" where
  "define_macro tbl name b f ps v =
     (let h = macro_hash name in
      case macro_chain_update (tbl h) name b f ps v of
        Some chain \<Rightarrow> tbl(h := chain)
      | None \<Rightarrow>
          tbl(h := \<lparr>mac_name = name, mac_body = b, mac_params = ps, is_func = f,
                    is_variadic = v\<rparr> # tbl h))"

definition no_macros :: MacroTable where
  "no_macros = (\<lambda>_. [])"



subsection \<open>Macro expansion\<close>

text \<open>
  Copying a string or character literal after its opening quote \<open>q\<close>: the text up to
  and including the closing quote, a backslash taking the next character with it; the
  result is the text copied and the position after it.
\<close>

fun copy_literal :: "char \<Rightarrow> string \<Rightarrow> string \<times> string" where
  "copy_literal q [] = ([], [])"
| "copy_literal q [c] = ([c], [])"
| "copy_literal q (c # d # r) =
     (if c = q then ([c], d # r)
      else if c = CHR 0x5C then
        (let (t, rest) = copy_literal q r in (c # d # t, rest))
      else
        (let (t, rest) = copy_literal q (d # r) in (c # t, rest)))"

lemma copy_literal_length: "length (snd (copy_literal q p)) \<le> length p"
  by (induction q p rule: copy_literal.induct) (auto split: prod.splits)

text \<open>
  One macro argument (the inner loop of the argument collection): the argument text,
  the position after it and the parenthesis depth left.
\<close>

function collect_arg :: "string \<Rightarrow> nat \<Rightarrow> string \<times> string \<times> nat" where
  "collect_arg [] d = ([], [], d)"
| "collect_arg (c # r) d =
     (if d = 0 then ([], c # r, d)
      else if c = CHR ''('' then
        (let (a, p, d') = collect_arg r (d + 1) in (c # a, p, d'))
      else if c = CHR '')'' then
        (if d - 1 > 0 then (let (a, p, d') = collect_arg r (d - 1) in (c # a, p, d'))
         else ([], r, 0))
      else if c = CHR '','' \<and> d = 1 then ([], r, d)
      else if c = CHR 0x22 then
        (let (a, p, d') = collect_arg (snd (copy_literal c r)) d
         in (c # fst (copy_literal c r) @ a, p, d'))
      else
        (let (a, p, d') = collect_arg r d in (c # a, p, d')))"
  by pat_completeness auto
termination
  by (relation "measure (\<lambda>(p, d). length p)")
     (auto simp: copy_literal_length le_imp_less_Suc)

text \<open>The arguments of an invocation, at most \<open>k\<close> of them (64 in the source).\<close>

fun collect_args :: "nat \<Rightarrow> string \<Rightarrow> nat \<Rightarrow> string list \<times> string" where
  "collect_args 0 p d = ([], p)"
| "collect_args (Suc k) p d =
     (if d > 0 \<and> p \<noteq> [] then
        (let (a, p1, d1) = collect_arg (skip_blanks p) d;
             (as, p2) = collect_args k p1 d1
         in (a # as, p2))
      else ([], p))"

text \<open>Looking a name up among the parameters: its index.\<close>

fun param_index :: "string list \<Rightarrow> string \<Rightarrow> nat \<Rightarrow> nat option" where
  "param_index [] name i = None"
| "param_index (q # qs) name i = (if q = name then Some i else param_index qs name (i + 1))"

definition join_commas :: "string list \<Rightarrow> string" where
  "join_commas xs = (case xs of [] \<Rightarrow> [] | y # ys \<Rightarrow> y @ concat (map (\<lambda>z. CHR '','' # z) ys))"

definition stringify_arg :: "string \<Rightarrow> string" where
  "stringify_arg a =
     concat (map (\<lambda>c. if c = CHR 0x22 \<or> c = CHR 0x5C then [CHR 0x5C, c] else [c]) a)"

definition trim_right_blanks :: "string \<Rightarrow> string" where
  "trim_right_blanks t = rev (dropWhile is_blank (rev t))"

text \<open>
  The substitution of the parameters into the body: \<open>acc\<close> is the temporary buffer
  built so far (token pasting removes blanks from its end).
\<close>

function substitute_body :: "string list \<Rightarrow> string list \<Rightarrow> string \<Rightarrow> string \<Rightarrow> string" where
  "substitute_body ps args [] acc = acc"
| "substitute_body ps args (c # r) acc =
     (if is_alpha c \<or> c = CHR ''_'' then
        (let name = takeWhile is_ident_char (c # r);
             rest = dropWhile is_ident_char (c # r)
         in if length name = 12 \<and> take 11 name = ''__VA_ARGS__'' then
              substitute_body ps args rest (acc @ join_commas (drop (length ps) args))
            else
              (case param_index ps name 0 of
                 Some i \<Rightarrow>
                   substitute_body ps args rest (acc @ (if i < length args then args ! i else []))
               | None \<Rightarrow> substitute_body ps args rest (acc @ name)))
      else if c = CHR ''#'' \<and> cur r = CHR ''#'' then
        substitute_body ps args (skip_blanks (tl r)) (trim_right_blanks acc)
      else if c = CHR ''#'' then
        (let p1 = skip_blanks r;
             name = takeWhile is_ident_char p1;
             rest = dropWhile is_ident_char p1
         in case param_index ps name 0 of
              Some i \<Rightarrow>
                substitute_body ps args rest
                  (acc @ [CHR 0x22] @ (if i < length args then stringify_arg (args ! i) else [])
                   @ [CHR 0x22])
            | None \<Rightarrow> substitute_body ps args rest acc)
      else substitute_body ps args r (acc @ [c]))"
  by pat_completeness auto
termination
  by (relation "measure (\<lambda>(ps, args, b, acc). length b)")
     (auto simp: skip_blanks_def is_ident_char_def is_alnum_def le_imp_less_Suc
        length_dropWhile_le order.trans [OF length_dropWhile_le] 
        intro: le_less_trans [OF length_dropWhile_le])


text \<open>
  The environment of an expansion: the macro table, the file name and line for
  \<^verbatim>\<open>__FILE__\<close> and \<^verbatim>\<open>__LINE__\<close>, and the texts \<^verbatim>\<open>strftime\<close> gives for
  \<^verbatim>\<open>__DATE__\<close> and \<^verbatim>\<open>__TIME__\<close>.
\<close>

record PPEnv =
  macros :: MacroTable
  filename :: string
  line :: int
  date_text :: string
  time_text :: string

lemma collect_arg_length: "length (fst (snd (collect_arg p d))) \<le> length p"
proof (induction p d rule: collect_arg.induct)
  case (1 d)
  then show ?case by simp
next
  case (2 c r d)
  have "length (snd (copy_literal c r)) \<le> length r" by (rule copy_literal_length)
  with 2 show ?case
    by (auto split: prod.splits if_splits)
qed

lemma collect_args_length: "length (snd (collect_args k p d)) \<le> length p"
proof (induction k arbitrary: p d)
  case 0
  then show ?case by simp
next
  case (Suc k)
  show ?case
  proof (cases "d > 0 \<and> p \<noteq> []")
    case False
    then show ?thesis by auto
  next
    case True
    obtain a p1 d1 where c: "collect_arg (skip_blanks p) d = (a, p1, d1)"
      by (cases "collect_arg (skip_blanks p) d")
    have "length p1 \<le> length (skip_blanks p)"
      using collect_arg_length [of "skip_blanks p" d] by (simp add: c)
    also have "\<dots> \<le> length p" by (simp add: skip_blanks_def length_dropWhile_le)
    finally have 1: "length p1 \<le> length p" .
    have "length (snd (collect_args k p1 d1)) \<le> length p1" by (rule Suc.IH)
    with 1 True c show ?thesis
      by (auto split: prod.splits)
  qed
qed

lemma step_literal: "length (snd (copy_literal c r)) < length (c # r)"
  using copy_literal_length [of c r] by simp

lemma step_ident:
  assumes "is_alpha c \<or> c = CHR ''_''"
  shows "length (dropWhile is_ident_char (c # r)) < length (c # r)"
proof -
  from assms have "is_ident_char c" by (auto simp: is_ident_char_def is_alnum_def)
  then show ?thesis by (simp add: le_imp_less_Suc length_dropWhile_le)
qed

lemma step_args:
  assumes "is_alpha c \<or> c = CHR ''_''"
  shows "length (snd (collect_args k (tl (dropWhile is_ident_char (c # r))) d)) < length (c # r)"
proof -
  have "length (snd (collect_args k (tl (dropWhile is_ident_char (c # r))) d))
      \<le> length (tl (dropWhile is_ident_char (c # r)))"
    by (rule collect_args_length)
  also have "\<dots> \<le> length (dropWhile is_ident_char (c # r))" by simp
  also have "\<dots> < length (c # r)" by (rule step_ident [OF assms])
  finally show ?thesis .
qed

lemma step_depth: "\<not> 32 < dp \<Longrightarrow> 33 - (dp + 1) < 33 - (dp::nat)"
  by arith

lemma step_tail: "length r < length (c # r)"
  by simp

text \<open>
  \<^verbatim>\<open>expand_macros_r\<close> returns the text it appends to the output. The source tests the
  depth once and then scans the input in a loop; the embedding tests it again for each
  remaining suffix, with the same outcome, the depth being fixed during the scan. An
  identifier is looked up, and written out when it is no macro, under its first 255
  characters.
\<close>

function expand_macros_r :: "PPEnv \<Rightarrow> nat \<Rightarrow> string \<Rightarrow> string" where
  "expand_macros_r env dp p =
     (if dp > 32 then p
      else case p of
        [] \<Rightarrow> []
      | c # r \<Rightarrow>
          if c = CHR 0x22 \<or> c = CHR 0x27 then
            c # fst (copy_literal c r) @ expand_macros_r env dp (snd (copy_literal c r))
          else if is_alpha c \<or> c = CHR ''_'' then
            (let name = take 255 (takeWhile is_ident_char p);
                 rest = dropWhile is_ident_char p
             in if name = ''__LINE__'' then show_int (line env) @ expand_macros_r env dp rest
                else if name = ''__FILE__'' then
                  [CHR 0x22] @ filename env @ [CHR 0x22] @ expand_macros_r env dp rest
                else if name = ''__DATE__'' then date_text env @ expand_macros_r env dp rest
                else if name = ''__TIME__'' then time_text env @ expand_macros_r env dp rest
                else
                  (case find_macro (macros env) name of
                     None \<Rightarrow> name @ expand_macros_r env dp rest
                   | Some m \<Rightarrow>
                       if \<not> is_func m then
                         expand_macros_r env (dp + 1) (mac_body m)
                         @ expand_macros_r env dp rest
                       else if cur rest = CHR ''('' then
                         expand_macros_r env (dp + 1)
                           (substitute_body (mac_params m)
                              (fst (collect_args 64 (tl rest) 1)) (mac_body m) [])
                         @ expand_macros_r env dp (snd (collect_args 64 (tl rest) 1))
                       else name @ expand_macros_r env dp rest))
          else c # expand_macros_r env dp r)"
  by pat_completeness auto
termination
  apply (relation "measures [\<lambda>(env, dp, p). 33 - dp, \<lambda>(env, dp, p). length p]")
  apply (simp_all only: in_measures prod.case wf_measures)
  apply (blast intro: step_literal step_ident step_args step_depth step_tail)+
  done

declare expand_macros_r.simps [simp del]

definition expand_macros :: "PPEnv \<Rightarrow> string \<Rightarrow> string" where
  "expand_macros env p = expand_macros_r env 0 p"


subsection \<open>Replacing \<^verbatim>\<open>defined\<close>\<close>

definition starts_with :: "string \<Rightarrow> string \<Rightarrow> bool" where
  "starts_with pre p \<longleftrightarrow> take (length pre) p = pre"

text \<open>The operand of \<^verbatim>\<open>defined\<close>: the position after it, and the name looked up.\<close>

definition defined_operand :: "string \<Rightarrow> string \<times> string" where
  "defined_operand p =
     (let p1 = skip_blanks p;
          paren = (cur p1 = CHR ''('');
          p2 = skip_blanks (if paren then tl p1 else p1);
          name = take 255 (takeWhile is_ident_char p2);
          p3 = dropWhile is_ident_char p2;
          p4 = (if paren
                then (let q = skip_blanks p3 in if cur q = CHR '')'' then tl q else q)
                else p3)
      in (name, p4))"


lemma defined_operand_length: "length (snd (defined_operand p)) \<le> length p"
proof -
  have a: "length (skip_blanks q) \<le> length q" for q
    by (simp add: skip_blanks_def length_dropWhile_le)
  have b: "length (dropWhile is_ident_char q) \<le> length q" for q
    by (rule length_dropWhile_le)
  have c: "length (tl q) \<le> length q" for q :: string
    by simp
  define p1 where "p1 = skip_blanks p"
  define p2 where "p2 = skip_blanks (if cur p1 = CHR ''('' then tl p1 else p1)"
  define p3 where "p3 = dropWhile is_ident_char p2"
  have 1: "length p1 \<le> length p" unfolding p1_def by (rule a)
  have "length p2 \<le> length (if cur p1 = CHR ''('' then tl p1 else p1)"
    unfolding p2_def by (rule a)
  also have "\<dots> \<le> length p1" by simp
  finally have 2: "length p2 \<le> length p" using 1 by simp
  have 3: "length p3 \<le> length p" unfolding p3_def using b [of p2] 2 by simp
  have 4: "length (skip_blanks p3) \<le> length p" using a [of p3] 3 by simp
  have 5: "length (tl (skip_blanks p3)) \<le> length p" using 4 by simp
  have "snd (defined_operand p) =
        (if cur p1 = CHR ''(''
         then (if cur (skip_blanks p3) = CHR '')'' then tl (skip_blanks p3) else skip_blanks p3)
         else p3)"
    by (simp add: defined_operand_def Let_def p1_def p2_def p3_def)
  then show ?thesis using 3 4 5 by simp
qed

lemma starts_with_length: "starts_with pre p \<Longrightarrow> length pre \<le> length p"
  unfolding starts_with_def by (metis length_take min.cobounded1 min.commute)

text \<open>
  \<^verbatim>\<open>pp_replace_defined\<close> replaces every \<^verbatim>\<open>defined X\<close> and \<^verbatim>\<open>defined(X)\<close> by 1 or 0
  before macro expansion.
\<close>

function pp_replace_defined :: "MacroTable \<Rightarrow> string \<Rightarrow> string" where
  "pp_replace_defined tbl [] = []"
| "pp_replace_defined tbl (c # r) =
     (if starts_with ''defined'' (c # r) \<and> \<not> is_alnum (cur (drop 7 (c # r)))
         \<and> cur (drop 7 (c # r)) \<noteq> CHR ''_''
      then (if find_macro tbl (fst (defined_operand (drop 7 (c # r)))) \<noteq> None
            then CHR ''1'' else CHR ''0'')
           # pp_replace_defined tbl (snd (defined_operand (drop 7 (c # r))))
      else c # pp_replace_defined tbl r)"
  by pat_completeness auto
termination
proof (relation "measure (\<lambda>(tbl, p). length p)", goal_cases)
  case 1
  show ?case by simp
next
  case (2 tbl c r)
  have "length (snd (defined_operand (drop 7 (c # r)))) \<le> length (drop 7 (c # r))"
    by (rule defined_operand_length)
  also have "\<dots> < length (c # r)" by simp
  finally show ?case by simp
next
  case (3 tbl c r)
  show ?case by simp
qed


subsection \<open>The directive \<^verbatim>\<open>#define\<close>\<close>

definition pp_read_ident :: "string \<Rightarrow> string option \<times> string" where
  "pp_read_ident p =
     (if takeWhile is_ident_char p = [] then (None, p)
      else (Some (takeWhile is_ident_char p), dropWhile is_ident_char p))"

definition is_line_continuation :: "string \<Rightarrow> bool" where
  "is_line_continuation p \<longleftrightarrow>
     cur p = CHR 0x5C \<and>
     (cur (tl p) = CHR 0x0A \<or> (cur (tl p) = CHR 0x0D \<and> cur (tl (tl p)) = CHR 0x0A))"

definition skip_line_continuation :: "string \<Rightarrow> nat" where
  "skip_line_continuation p =
     (if cur (tl p) = CHR 0x0A then 2
      else if cur (tl p) = CHR 0x0D \<and> cur (tl (tl p)) = CHR 0x0A then 3
      else 0)"

definition is_eol :: "char \<Rightarrow> bool" where
  "is_eol c \<longleftrightarrow> c = CHR 0x0A \<or> c = CHR 0x0D"

text \<open>
  Skipping a block comment after its opening: the position of the closing \<^verbatim>\<open>*/\<close> (or
  the end of the input) and the number of line ends passed.
\<close>

fun skip_block_comment :: "string \<Rightarrow> nat \<Rightarrow> string \<times> nat" where
  "skip_block_comment [] k = ([], k)"
| "skip_block_comment (c # r) k =
     (if c = CHR ''*'' \<and> cur r = CHR ''/'' then (c # r, k)
      else skip_block_comment r (if is_eol c then k + 1 else k))"

lemma skip_block_comment_length: "length (fst (skip_block_comment p k)) \<le> length p"
  by (induction p k rule: skip_block_comment.induct) auto

text \<open>
  \<^verbatim>\<open>pp_read_line\<close>: the rest of the line as a macro body, continuation lines joined and
  comments removed; the result is the body, the position after it and the number of
  lines the counter advanced.
\<close>

function read_line_loop :: "string \<Rightarrow> string \<Rightarrow> nat \<Rightarrow> string \<times> string \<times> nat" where
  "read_line_loop [] acc k = (acc, [], k)"
| "read_line_loop (c # r) acc k =
     (if is_eol c then (acc, c # r, k)
      else if is_line_continuation (c # r) then
        read_line_loop (skip_blanks (drop (skip_line_continuation (c # r)) (c # r)))
          (if acc \<noteq> [] then acc @ [CHR '' ''] else acc) (k + 1)
      else if c = CHR ''/'' \<and> cur r = CHR ''*'' then
        read_line_loop
          (drop 2 (fst (skip_block_comment (tl r) k)))
          (if acc \<noteq> [] then acc @ [CHR '' ''] else acc)
          (snd (skip_block_comment (tl r) k))
      else if c = CHR ''/'' \<and> cur r = CHR ''/'' then
        (acc, dropWhile (\<lambda>d. \<not> is_eol d) (c # r), k)
      else read_line_loop r (acc @ [c]) k)"
  by pat_completeness auto
termination
proof (relation "measure (\<lambda>(p, acc, k). length p)", goal_cases)
  case 1
  show ?case by simp
next
  case (2 c r acc k)
  from 2 have "skip_line_continuation (c # r) \<ge> 2"
    by (auto simp: is_line_continuation_def skip_line_continuation_def)
  then have "length (drop (skip_line_continuation (c # r)) (c # r)) < length (c # r)"
    by simp
  moreover have "length (skip_blanks (drop (skip_line_continuation (c # r)) (c # r)))
      \<le> length (drop (skip_line_continuation (c # r)) (c # r))"
    unfolding skip_blanks_def by (rule length_dropWhile_le)
  ultimately show ?case by simp
next
  case (3 c r acc k)
  have "length (fst (skip_block_comment (tl r) k)) \<le> length (tl r)"
    by (rule skip_block_comment_length)
  then show ?case by simp
next
  case (4 c r acc k)
  show ?case by simp
qed

definition pp_read_line :: "string \<Rightarrow> string \<times> string \<times> nat" where
  "pp_read_line p =
     (let (b, rest, k) = read_line_loop (skip_blanks p) [] 0
      in (trim_right_blanks b, rest, k))"

text \<open>
  The parameter list after the opening parenthesis: the names, whether an ellipsis
  ended the list, and the position reached. The loop does not advance at a character
  that is neither an identifier character, a comma nor the closing parenthesis; the
  first argument bounds its iterations.
\<close>

fun macro_params :: "nat \<Rightarrow> string \<Rightarrow> string list \<Rightarrow> (string list \<times> bool \<times> string) option" where
  "macro_params 0 p ps = None"
| "macro_params (Suc k) p ps =
     (if p = [] \<or> cur p = CHR '')'' then Some (ps, False, p)
      else if take 3 (skip_blanks p) = ''...'' then Some (ps, True, drop 3 (skip_blanks p))
      else
        (let (nm, p2) = pp_read_ident (skip_blanks p);
             p3 = skip_blanks p2
         in macro_params k (if cur p3 = CHR '','' then tl p3 else p3)
              (case nm of None \<Rightarrow> ps | Some x \<Rightarrow> ps @ [x])))"

text \<open>
  The directive, from the text after \<^verbatim>\<open>define\<close>: the macro table with the new macro,
  the position after the line and the number of lines the counter advanced. Without a
  name the line is skipped.
\<close>

definition define_directive ::
  "nat \<Rightarrow> MacroTable \<Rightarrow> string \<Rightarrow> (MacroTable \<times> string \<times> nat) option" where
  "define_directive fuel tbl p0 =
     (case pp_read_ident (skip_blanks p0) of
        (None, p) \<Rightarrow> Some (tbl, dropWhile (\<lambda>d. \<not> is_eol d) p, 0)
      | (Some name, p) \<Rightarrow>
          if cur p = CHR ''('' then
            (case macro_params fuel (skip_blanks (tl p)) [] of
               None \<Rightarrow> None
             | Some (ps, variadic, p1) \<Rightarrow>
                 (let (b, rest, k) = pp_read_line (if cur p1 = CHR '')'' then tl p1 else p1)
                  in Some (define_macro tbl name b True ps variadic, rest, k)))
          else
            (let (b, rest, k) = pp_read_line p
             in Some (define_macro tbl name b False [] False, rest, k)))"


subsection \<open>The constant-expression evaluator\<close>

text \<open>
  \<^verbatim>\<open>pp_eval_expr\<close> is called on the expanded expression, a string that \<^verbatim>\<open>buf_detach\<close>
  has terminated with a NUL inside the block allocated for the buffer. The evaluator can
  step over the terminator (after a quote that ends the string), so a position is here
  the list of all bytes from it to the end of the block: the rest of the string, the
  NUL, and the bytes behind it, which the program has never written. Every loop of the
  evaluator stops at a NUL as at any other byte it does not accept. A read at the empty
  list is a read behind the block, the fault \<open>ReadPastEnd\<close>.

  \<open>scan P p\<close> advances while \<open>P\<close> holds; it is \<open>None\<close> when the loop leaves the block.
\<close>

definition scan :: "(char \<Rightarrow> bool) \<Rightarrow> string \<Rightarrow> string option" where
  "scan P p = (if dropWhile P p = [] then None else Some (dropWhile P p))"

text \<open>
  \<^verbatim>\<open>strtoll\<close> with base 0 at a digit: a \<^verbatim>\<open>0x\<close> prefix followed by a hexadecimal digit
  selects base 16, a leading \<^verbatim>\<open>0\<close> base 8, anything else base 10; the digits of the
  base are consumed and a value beyond \<^verbatim>\<open>LLONG_MAX\<close> is clamped to it.
\<close>

definition digit_value :: "char \<Rightarrow> int" where
  "digit_value c =
     (if is_digit c then int (of_char c) - 48
      else if (97::nat) \<le> of_char c then int (of_char c) - 87
      else int (of_char c) - 55)"

definition is_hex_digit :: "char \<Rightarrow> bool" where
  "is_hex_digit c \<longleftrightarrow>
     is_digit c \<or> ((65::nat) \<le> of_char c \<and> (of_char c :: nat) \<le> 70) \<or>
     ((97::nat) \<le> of_char c \<and> (of_char c :: nat) \<le> 102)"

definition is_octal_digit :: "char \<Rightarrow> bool" where
  "is_octal_digit c \<longleftrightarrow> (48::nat) \<le> of_char c \<and> (of_char c :: nat) \<le> 55"

definition digits_value :: "int \<Rightarrow> string \<Rightarrow> int" where
  "digits_value b ds = min LLONG_MAX (foldl (\<lambda>v c. v * b + digit_value c) 0 ds)"

definition strtoll0 :: "string \<Rightarrow> (int \<times> string) option" where
  "strtoll0 p =
     (if cur p = CHR ''0'' \<and> (cur (tl p) = CHR ''x'' \<or> cur (tl p) = CHR ''X'')
         \<and> tl (tl p) = []
      then None
      else if cur p = CHR ''0'' \<and> (cur (tl p) = CHR ''x'' \<or> cur (tl p) = CHR ''X'')
         \<and> is_hex_digit (cur (tl (tl p)))
      then map_option (Pair (digits_value 16 (takeWhile is_hex_digit (tl (tl p)))))
             (scan is_hex_digit (tl (tl p)))
      else if cur p = CHR ''0''
      then map_option (Pair (digits_value 8 (takeWhile is_octal_digit p)))
             (scan is_octal_digit p)
      else map_option (Pair (digits_value 10 (takeWhile is_digit p))) (scan is_digit p))"

definition is_int_suffix :: "char \<Rightarrow> bool" where
  "is_int_suffix c \<longleftrightarrow> c = CHR ''u'' \<or> c = CHR ''U'' \<or> c = CHR ''l'' \<or> c = CHR ''L''"

text \<open>
  After an opening parenthesis: skip to the matching closing one, or to a NUL. The
  loop reads the byte at the position before it tests the depth.
\<close>

fun skip_to_close :: "string \<Rightarrow> nat \<Rightarrow> string option" where
  "skip_to_close [] d = None"
| "skip_to_close (c # r) d =
     (if c = CHR 0x00 \<or> d = 0 then Some (c # r)
      else if c = CHR ''('' then skip_to_close r (d + 1)
      else if c = CHR '')'' then skip_to_close r (d - 1)
      else skip_to_close r d)"

text \<open>
  \<^verbatim>\<open>strncmp(*p, "defined", 7)\<close>: whether the position starts with \<^verbatim>\<open>defined\<close>; \<open>None\<close>
  when the block ends inside a match.
\<close>

definition strncmp_defined :: "string \<Rightarrow> bool option" where
  "strncmp_defined p =
     (if take 7 p = ''defined'' then Some True
      else if p = take (length p) ''defined'' then None
      else Some False)"

text \<open>
  The operand of \<^verbatim>\<open>defined\<close> in the evaluator, from the position after the keyword:
  the name looked up and the position after the operand.
\<close>

definition defined_operand_at :: "string \<Rightarrow> (string \<times> string) option" where
  "defined_operand_at p =
     (case scan is_blank p of
        None \<Rightarrow> None
      | Some p1 \<Rightarrow>
          (case scan is_blank (if cur p1 = CHR ''('' then tl p1 else p1) of
             None \<Rightarrow> None
           | Some p2 \<Rightarrow>
               (case scan is_ident_char p2 of
                  None \<Rightarrow> None
                | Some p3 \<Rightarrow>
                    if cur p1 = CHR ''('' then
                      (case scan is_blank p3 of
                         None \<Rightarrow> None
                       | Some p4 \<Rightarrow>
                           Some (take 255 (takeWhile is_ident_char p2),
                                 if cur p4 = CHR '')'' then tl p4 else p4))
                    else Some (take 255 (takeWhile is_ident_char p2), p3))))"

text \<open>
  \<^verbatim>\<open>pp_eval_primary\<close> returns the value and the advanced position; \<^verbatim>\<open>pp_eval_expr\<close>
  is its loop over the binary operators, \<open>pp_eval_loop\<close> below. The number of nested
  calls is bounded by the first numeric argument, which each call passes on
  decremented. A character constant takes the byte after the quote as its value,
  whatever it is, and then steps over one more byte. A logical operator whose left
  operand decides the result does not read its right operand, and leaves the position
  in front of it. The loop reads the byte after an operator character only where the
  source does.
\<close>

fun pp_eval_primary :: "MacroTable \<Rightarrow> nat \<Rightarrow> string \<Rightarrow> fault + (int \<times> string)"
and pp_eval_expr :: "MacroTable \<Rightarrow> nat \<Rightarrow> string \<Rightarrow> fault + int"
and pp_eval_loop :: "MacroTable \<Rightarrow> nat \<Rightarrow> int \<Rightarrow> string \<Rightarrow> fault + int"
and pp_eval_step ::
  "MacroTable \<Rightarrow> nat \<Rightarrow> (int \<Rightarrow> fault + int) \<Rightarrow> string \<Rightarrow> fault + int" where
  "pp_eval_primary tbl 0 p0 = Inl OutOfFuel"
| "pp_eval_primary tbl (Suc f) p0 =
     (case scan is_blank p0 of
        None \<Rightarrow> Inl ReadPastEnd
      | Some p \<Rightarrow>
          if cur p = CHR ''('' then
            (case pp_eval_expr tbl f (tl p) of
               Inl e \<Rightarrow> Inl e
             | Inr v \<Rightarrow>
                 (case skip_to_close (tl p) 1 of
                    None \<Rightarrow> Inl ReadPastEnd
                  | Some r \<Rightarrow> Inr (v, r)))
          else if cur p = CHR ''!'' then
            (case pp_eval_primary tbl f (tl p) of
               Inl e \<Rightarrow> Inl e
             | Inr (v, r) \<Rightarrow> Inr (if v = 0 then 1 else 0, r))
          else if cur p = CHR ''-'' then
            (case pp_eval_primary tbl f (tl p) of
               Inl e \<Rightarrow> Inl e
             | Inr (v, r) \<Rightarrow> (case ll_neg v of Inl e \<Rightarrow> Inl e | Inr w \<Rightarrow> Inr (w, r)))
          else if cur p = CHR ''+'' then pp_eval_primary tbl f (tl p)
          else
            (case strncmp_defined p of
               None \<Rightarrow> Inl ReadPastEnd
             | Some matched \<Rightarrow>
                 if matched \<and> drop 7 p = [] then Inl ReadPastEnd
                 else if matched \<and> \<not> is_alnum (cur (drop 7 p))
                         \<and> cur (drop 7 p) \<noteq> CHR ''_'' then
                   (case defined_operand_at (drop 7 p) of
                      None \<Rightarrow> Inl ReadPastEnd
                    | Some (name, r) \<Rightarrow> Inr (if find_macro tbl name \<noteq> None then 1 else 0, r))
                 else if is_digit (cur p) then
                   (case strtoll0 p of
                      None \<Rightarrow> Inl ReadPastEnd
                    | Some (v, r) \<Rightarrow>
                        (case scan is_int_suffix r of
                           None \<Rightarrow> Inl ReadPastEnd
                         | Some r' \<Rightarrow> Inr (v, r')))
                 else if cur p = CHR 0x27 then
                   (case tl p of
                      [] \<Rightarrow> Inl ReadPastEnd
                    | c # r \<Rightarrow>
                        if r = [] then Inl ReadPastEnd
                        else Inr (char_value c, if cur r = CHR 0x27 then tl r else r))
                 else if is_alpha (cur p) \<or> cur p = CHR ''_'' then
                   (case scan is_ident_char p of
                      None \<Rightarrow> Inl ReadPastEnd
                    | Some r \<Rightarrow> Inr (0, r))
                 else Inr (0, p)))"
| "pp_eval_expr tbl 0 p = Inl OutOfFuel"
| "pp_eval_expr tbl (Suc f) p =
     (case pp_eval_primary tbl f p of
        Inl e \<Rightarrow> Inl e
      | Inr (v, r) \<Rightarrow> pp_eval_loop tbl f v r)"
| "pp_eval_step tbl 0 g p = Inl OutOfFuel"
| "pp_eval_step tbl (Suc f) g p =
     (case pp_eval_primary tbl f p of
        Inl e \<Rightarrow> Inl e
      | Inr (v, r) \<Rightarrow>
          (case g v of Inl e \<Rightarrow> Inl e | Inr w \<Rightarrow> pp_eval_loop tbl f w r))"
| "pp_eval_loop tbl 0 lv p0 = Inl OutOfFuel"
| "pp_eval_loop tbl (Suc f) lv p0 =
     (case scan is_blank p0 of
        None \<Rightarrow> Inl ReadPastEnd
      | Some p \<Rightarrow>
          (let c = cur p; d = cur (tl p) in
           if (c = CHR ''+'' \<or> c = CHR ''-'' \<or> c = CHR ''<'' \<or> c = CHR ''>'' \<or> c = CHR ''=''
               \<or> c = CHR ''!'' \<or> c = CHR ''&'' \<or> c = CHR ''|'') \<and> tl p = []
           then Inl ReadPastEnd
           else if c = CHR ''+'' \<and> d \<noteq> CHR ''+'' then pp_eval_step tbl f (ll_add lv) (tl p)
           else if c = CHR ''-'' \<and> d \<noteq> CHR ''-'' then pp_eval_step tbl f (ll_sub lv) (tl p)
           else if c = CHR ''*'' then pp_eval_step tbl f (ll_mul lv) (tl p)
           else if c = CHR ''/'' then
             pp_eval_step tbl f (\<lambda>r. if r \<noteq> 0 then ll_div lv r else Inr 0) (tl p)
           else if c = CHR ''%'' then
             pp_eval_step tbl f (\<lambda>r. if r \<noteq> 0 then ll_mod lv r else Inr 0) (tl p)
           else if c = CHR ''<'' \<and> d = CHR ''<'' then
             pp_eval_step tbl f (ll_shl lv) (tl (tl p))
           else if c = CHR ''>'' \<and> d = CHR ''>'' then
             pp_eval_step tbl f (ll_shr lv) (tl (tl p))
           else if c = CHR ''<'' \<and> d = CHR ''='' then
             pp_eval_step tbl f (\<lambda>r. of_bool_ll (lv \<le> r)) (tl (tl p))
           else if c = CHR ''>'' \<and> d = CHR ''='' then
             pp_eval_step tbl f (\<lambda>r. of_bool_ll (lv \<ge> r)) (tl (tl p))
           else if c = CHR ''<'' then pp_eval_step tbl f (\<lambda>r. of_bool_ll (lv < r)) (tl p)
           else if c = CHR ''>'' then pp_eval_step tbl f (\<lambda>r. of_bool_ll (lv > r)) (tl p)
           else if c = CHR ''='' \<and> d = CHR ''='' then
             pp_eval_step tbl f (\<lambda>r. of_bool_ll (lv = r)) (tl (tl p))
           else if c = CHR ''!'' \<and> d = CHR ''='' then
             pp_eval_step tbl f (\<lambda>r. of_bool_ll (lv \<noteq> r)) (tl (tl p))
           else if c = CHR ''&'' \<and> d = CHR ''&'' then
             (if lv \<noteq> 0 then pp_eval_step tbl f (\<lambda>r. of_bool_ll (r \<noteq> 0)) (tl (tl p))
              else pp_eval_loop tbl f 0 (tl (tl p)))
           else if c = CHR ''|'' \<and> d = CHR ''|'' then
             (if lv = 0 then pp_eval_step tbl f (\<lambda>r. of_bool_ll (r \<noteq> 0)) (tl (tl p))
              else pp_eval_loop tbl f 1 (tl (tl p)))
           else if c = CHR ''&'' \<and> d \<noteq> CHR ''&'' then
             pp_eval_step tbl f (\<lambda>r. Inr (lv AND r)) (tl p)
           else if c = CHR ''|'' \<and> d \<noteq> CHR ''|'' then
             pp_eval_step tbl f (\<lambda>r. Inr (lv OR r)) (tl p)
           else if c = CHR ''^'' then pp_eval_step tbl f (\<lambda>r. Inr (lv XOR r)) (tl p)
           else Inr lv))"

text \<open>
  The value of the controlling expression of \<^verbatim>\<open>#if\<close> and \<^verbatim>\<open>#elif\<close>, from the text of
  the line: \<^verbatim>\<open>defined\<close> is replaced, macros are expanded, the result is terminated and
  evaluated. \<open>slack\<close> stands for the bytes that lie behind the terminator in the block of
  the buffer (the block has 64 bytes or a power-of-two multiple of that). The group is
  skipped when the value is 0.
\<close>

definition if_condition :: "PPEnv \<Rightarrow> nat \<Rightarrow> string \<Rightarrow> string \<Rightarrow> fault + int" where
  "if_condition env fuel slack expr =
     pp_eval_expr (macros env) fuel
       (expand_macros env (pp_replace_defined (macros env) expr) @ CHR 0x00 # slack)"

subsection \<open>The evaluator returns\<close>

text \<open>
  The bound on the number of calls is no restriction: a primary only consumes input,
  every round of the loop consumes an operator, and a bound of twice the length of the
  buffer plus two is never exhausted. So the evaluation of every expression ends, with
  a value or with one of the faults.
\<close>

definition no_fuel_fault :: "(int \<Rightarrow> fault + int) \<Rightarrow> bool" where
  "no_fuel_fault g \<longleftrightarrow> (\<forall>v. g v \<noteq> Inl OutOfFuel)"

lemma ll_check_fuel: "ll_check v \<noteq> Inl OutOfFuel"
  by (simp add: ll_check_def)

lemma no_fuel_fault_ops:
  "no_fuel_fault (ll_add a)" "no_fuel_fault (ll_sub a)" "no_fuel_fault (ll_mul a)"
  "no_fuel_fault (\<lambda>r. if r \<noteq> 0 then ll_div a r else Inr 0)"
  "no_fuel_fault (\<lambda>r. if r \<noteq> 0 then ll_mod a r else Inr 0)"
  "no_fuel_fault (ll_shl a)" "no_fuel_fault (ll_shr a)"
  "no_fuel_fault (\<lambda>r. of_bool_ll (P r))"
  "no_fuel_fault (\<lambda>r. Inr (h r))"
  by (simp_all add: no_fuel_fault_def ll_add_def ll_sub_def ll_mul_def ll_div_def ll_mod_def
        ll_shl_def ll_shr_def of_bool_ll_def ll_check_fuel)

lemma scan_length: "scan P p = Some r \<Longrightarrow> length r \<le> length p \<and> r \<noteq> []"
  using length_dropWhile_le [of P p] by (auto simp: scan_def split: if_splits)

lemma skip_to_close_length: "skip_to_close p d = Some r \<Longrightarrow> length r \<le> length p"
  by (induction p d rule: skip_to_close.induct) (auto simp: le_SucI split: if_splits)

lemma strtoll0_length: "strtoll0 p = Some (v, r) \<Longrightarrow> length r \<le> length p"
proof -
  have "length r \<le> length p" if "scan P (tl (tl p)) = Some r" for P
    using scan_length [OF that] by (simp, arith)
  then show "strtoll0 p = Some (v, r) \<Longrightarrow> length r \<le> length p"
    by (auto simp: strtoll0_def split: if_splits dest: scan_length)
qed

lemma defined_operand_at_length:
  assumes "defined_operand_at p = Some (name, r)"
  shows "length r \<le> length p"
proof -
  from assms obtain p1 p2 p3 where
    1: "scan is_blank p = Some p1"
    and 2: "scan is_blank (if cur p1 = CHR ''('' then tl p1 else p1) = Some p2"
    and 3: "scan is_ident_char p2 = Some p3"
    by (auto simp: defined_operand_at_def split: option.splits)
  have l1: "length p1 \<le> length p" using scan_length [OF 1] by simp
  have "length p2 \<le> length (if cur p1 = CHR ''('' then tl p1 else p1)"
    using scan_length [OF 2] by simp
  also have "\<dots> \<le> length p1" by simp
  finally have l2: "length p2 \<le> length p" using l1 by simp
  have l3: "length p3 \<le> length p" using scan_length [OF 3] l2 by simp
  show ?thesis
  proof (cases "cur p1 = CHR ''(''")
    case False
    with assms 1 2 3 have "r = p3" by (simp add: defined_operand_at_def)
    with l3 show ?thesis by simp
  next
    case True
    with assms 1 2 3 obtain p4 where 4: "scan is_blank p3 = Some p4"
      and r: "r = (if cur p4 = CHR '')'' then tl p4 else p4)"
      by (auto simp: defined_operand_at_def split: option.splits)
    have "length p4 \<le> length p" using scan_length [OF 4] l3 by simp
    then show ?thesis unfolding r by (simp, arith)
  qed
qed

lemma pp_eval_primary_length:
  "pp_eval_primary tbl f p = Inr (v, r) \<Longrightarrow> length r \<le> length p"
proof (induction f arbitrary: p v r)
  case 0
  then show ?case by simp
next
  case (Suc f)
  from Suc.prems obtain q where sq: "scan is_blank p = Some q"
    by (auto split: option.splits)
  have q: "length q \<le> length p" using scan_length [OF sq] by simp
  have tlq: "length (tl q) \<le> length p" using q by simp
  have IH: "length r' \<le> length p" if "pp_eval_primary tbl f (tl q) = Inr (v', r')" for v' r'
    using Suc.IH [OF that] tlq by simp
  note prem = Suc.prems [unfolded pp_eval_primary.simps sq option.case]
  consider (paren) "cur q = CHR ''(''"
    | (not) "cur q \<noteq> CHR ''(''" "cur q = CHR ''!''"
    | (neg) "cur q \<noteq> CHR ''(''" "cur q \<noteq> CHR ''!''" "cur q = CHR ''-''"
    | (pos) "cur q \<noteq> CHR ''(''" "cur q \<noteq> CHR ''!''" "cur q \<noteq> CHR ''-''" "cur q = CHR ''+''"
    | (atom) "cur q \<noteq> CHR ''(''" "cur q \<noteq> CHR ''!''" "cur q \<noteq> CHR ''-''" "cur q \<noteq> CHR ''+''"
    by blast
  then show ?case
  proof cases
    case paren
    with prem have "skip_to_close (tl q) 1 = Some r"
      by (simp split: sum.splits option.splits)
    from skip_to_close_length [OF this] tlq show ?thesis by simp
  next
    case not
    with prem obtain v' where "pp_eval_primary tbl f (tl q) = Inr (v', r)"
      by (auto split: sum.splits prod.splits)
    then show ?thesis by (rule IH)
  next
    case neg
    with prem obtain v' where "pp_eval_primary tbl f (tl q) = Inr (v', r)"
      by (auto split: sum.splits prod.splits)
    then show ?thesis by (rule IH)
  next
    case pos
    with prem have "pp_eval_primary tbl f (tl q) = Inr (v, r)" by simp
    then show ?thesis by (rule IH)
  next
    case atom
    note prem' = prem [simplified atom if_False]
    consider (fault) "strncmp_defined q = None"
      | (dfault) "strncmp_defined q = Some True" "drop 7 q = []"
      | (defined) "strncmp_defined q = Some True" "drop 7 q \<noteq> []"
          "\<not> is_alnum (cur (drop 7 q)) \<and> cur (drop 7 q) \<noteq> CHR ''_''"
      | (other) "\<exists>m. strncmp_defined q = Some m \<and> \<not> (m \<and> drop 7 q = []) \<and>
          \<not> (m \<and> \<not> is_alnum (cur (drop 7 q)) \<and> cur (drop 7 q) \<noteq> CHR ''_'')"
      by (cases "strncmp_defined q") auto
    then show ?thesis
    proof cases
      case fault
      with prem' show ?thesis by simp
    next
      case dfault
      with prem' show ?thesis by simp
    next
      case defined
      with prem' obtain nm where "defined_operand_at (drop 7 q) = Some (nm, r)"
        by (auto split: option.splits)
      from defined_operand_at_length [OF this] q show ?thesis by simp
    next
      case other
      then obtain m where m: "strncmp_defined q = Some m" "\<not> (m \<and> drop 7 q = [])"
        "\<not> (m \<and> \<not> is_alnum (cur (drop 7 q)) \<and> cur (drop 7 q) \<noteq> CHR ''_'')"
        by blast
      note prem'' = prem' [unfolded m(1) option.case, simplified m(2) m(3) if_False]
      consider (digit) "is_digit (cur q)"
        | (quote) "\<not> is_digit (cur q)" "cur q = CHR 0x27"
        | (ident) "\<not> is_digit (cur q)" "cur q \<noteq> CHR 0x27" "is_alpha (cur q) \<or> cur q = CHR ''_''"
        | (none) "\<not> is_digit (cur q)" "cur q \<noteq> CHR 0x27" "\<not> (is_alpha (cur q) \<or> cur q = CHR ''_'')"
        by blast
      then show ?thesis
      proof cases
        case digit
        with prem'' obtain v' r' where "strtoll0 q = Some (v', r')" "scan is_int_suffix r' = Some r"
          by (auto split: option.splits)
        from strtoll0_length [OF this(1)] scan_length [OF this(2)] q show ?thesis by simp
      next
        case quote
        with prem'' obtain c r' where "tl q = c # r'" "r = (if cur r' = CHR 0x27 then tl r' else r')"
          by (auto split: list.splits if_splits)
        with tlq show ?thesis by auto
      next
        case ident
        with prem'' have "scan is_ident_char q = Some r"
          by (auto split: option.splits)
        from scan_length [OF this] q show ?thesis by simp
      next
        case none
        with prem'' have "r = q" by auto
        with q show ?thesis by simp
      qed
    qed
  qed
qed


lemma tl_scan_less:
  assumes "scan P p = Some q"
  shows "length (tl q) < length p"
proof -
  from scan_length [OF assms] have "length q \<le> length p" "q \<noteq> []" by simp_all
  then show ?thesis by (cases q) auto
qed

lemma pp_eval_primary_fuel_step:
  assumes e: "\<And>q k. length q < length p \<Longrightarrow> 2 * length q + 2 \<le> k \<Longrightarrow>
                pp_eval_expr tbl k q \<noteq> Inl OutOfFuel"
    and a: "\<And>q k. length q < length p \<Longrightarrow> 2 * length q + 1 \<le> k \<Longrightarrow>
                pp_eval_primary tbl k q \<noteq> Inl OutOfFuel"
    and f: "2 * length p + 1 \<le> f"
  shows "pp_eval_primary tbl f p \<noteq> Inl OutOfFuel"
proof (cases "scan is_blank p")
  case None
  from f obtain f' where "f = Suc f'" by (cases f) auto
  with None show ?thesis by simp
next
  case (Some q)
  from f obtain f' where f': "f = Suc f'" and b: "2 * length p \<le> f'"
    by (cases f) auto
  have lt: "length (tl q) < length p" by (rule tl_scan_less [OF Some])
  have 1: "pp_eval_expr tbl f' (tl q) \<noteq> Inl OutOfFuel"
    using lt b by (intro e) auto
  have 2: "pp_eval_primary tbl f' (tl q) \<noteq> Inl OutOfFuel"
    using lt b by (intro a) auto
  consider (paren) "cur q = CHR ''(''"
    | (not) "cur q \<noteq> CHR ''(''" "cur q = CHR ''!''"
    | (neg) "cur q \<noteq> CHR ''(''" "cur q \<noteq> CHR ''!''" "cur q = CHR ''-''"
    | (pos) "cur q \<noteq> CHR ''(''" "cur q \<noteq> CHR ''!''" "cur q \<noteq> CHR ''-''" "cur q = CHR ''+''"
    | (atom) "cur q \<noteq> CHR ''(''" "cur q \<noteq> CHR ''!''" "cur q \<noteq> CHR ''-''" "cur q \<noteq> CHR ''+''"
    by blast
  then show ?thesis
  proof cases
    case paren
    with 1 show ?thesis
      unfolding f' pp_eval_primary.simps Some option.case
      by (auto split: sum.splits option.splits)
  next
    case not
    with 2 show ?thesis
      unfolding f' pp_eval_primary.simps Some option.case
      by (auto split: sum.splits prod.splits)
  next
    case neg
    with 2 show ?thesis
      unfolding f' pp_eval_primary.simps Some option.case
      by (auto split: sum.splits prod.splits simp: ll_neg_def ll_check_def)
  next
    case pos
    with 2 show ?thesis
      unfolding f' pp_eval_primary.simps Some option.case by simp
  next
    case atom
    show ?thesis
      unfolding f' pp_eval_primary.simps Some option.case
      by (simp add: atom split: option.splits prod.splits list.splits)
  qed
qed

lemma pp_eval_loop_fuel_step:
  assumes s: "\<And>q k g. length q < length p \<Longrightarrow> 2 * length q + 2 \<le> k \<Longrightarrow> no_fuel_fault g \<Longrightarrow>
                pp_eval_step tbl k g q \<noteq> Inl OutOfFuel"
    and l: "\<And>q k w. length q < length p \<Longrightarrow> 2 * length q + 1 \<le> k \<Longrightarrow>
                pp_eval_loop tbl k w q \<noteq> Inl OutOfFuel"
    and f: "2 * length p + 1 \<le> f"
  shows "pp_eval_loop tbl f lv p \<noteq> Inl OutOfFuel"
proof (cases "scan is_blank p")
  case None
  from f obtain f' where "f = Suc f'" by (cases f) auto
  with None show ?thesis by simp
next
  case (Some q)
  from f obtain f' where f': "f = Suc f'" and b: "2 * length p \<le> f'"
    by (cases f) auto
  have lt: "length (tl q) < length p" by (rule tl_scan_less [OF Some])
  have 1: "pp_eval_step tbl f' g (tl q) \<noteq> Inl OutOfFuel" if "no_fuel_fault g" for g
    using lt b that by (intro s) auto
  have 2: "pp_eval_step tbl f' g (tl (tl q)) \<noteq> Inl OutOfFuel" if "no_fuel_fault g" for g
  proof -
    have "length (tl (tl q)) < length p" using lt by simp
    then show ?thesis using b that by (intro s) auto
  qed
  have 3: "pp_eval_loop tbl f' w (tl (tl q)) \<noteq> Inl OutOfFuel" for w
  proof -
    have "length (tl (tl q)) < length p" using lt by simp
    then show ?thesis using b by (intro l) auto
  qed
  show ?thesis
    unfolding f' pp_eval_loop.simps Some option.case Let_def
    using 1 2 3
    by (simp add: no_fuel_fault_ops)
qed

lemma pp_eval_fuel:
  "(2 * length p + 1 \<le> f \<longrightarrow> pp_eval_primary tbl f p \<noteq> Inl OutOfFuel) \<and>
   (2 * length p + 1 \<le> f \<longrightarrow> pp_eval_loop tbl f lv p \<noteq> Inl OutOfFuel) \<and>
   (2 * length p + 2 \<le> f \<longrightarrow> pp_eval_expr tbl f p \<noteq> Inl OutOfFuel) \<and>
   (2 * length p + 2 \<le> f \<longrightarrow> no_fuel_fault g \<longrightarrow> pp_eval_step tbl f g p \<noteq> Inl OutOfFuel)"
proof (induction p arbitrary: f lv g rule: length_induct)
  case (1 p)
  have A: "pp_eval_primary tbl k r \<noteq> Inl OutOfFuel"
    if "length r \<le> length p" "2 * length r + 1 \<le> k" for r k
  proof (rule pp_eval_primary_fuel_step [OF _ _ that(2)])
    fix q :: string and j assume "length q < length r" "2 * length q + 2 \<le> j"
    with that(1) 1 show "pp_eval_expr tbl j q \<noteq> Inl OutOfFuel" by auto
  next
    fix q :: string and j assume "length q < length r" "2 * length q + 1 \<le> j"
    with that(1) 1 show "pp_eval_primary tbl j q \<noteq> Inl OutOfFuel" by auto
  qed
  have B: "pp_eval_loop tbl k w r \<noteq> Inl OutOfFuel"
    if "length r \<le> length p" "2 * length r + 1 \<le> k" for r k w
  proof (rule pp_eval_loop_fuel_step [OF _ _ that(2)])
    fix q :: string and j h assume "length q < length r" "2 * length q + 2 \<le> j" "no_fuel_fault h"
    with that(1) 1 show "pp_eval_step tbl j h q \<noteq> Inl OutOfFuel" by auto
  next
    fix q :: string and j w' assume "length q < length r" "2 * length q + 1 \<le> j"
    with that(1) 1 show "pp_eval_loop tbl j w' q \<noteq> Inl OutOfFuel" by auto
  qed
  have C: "pp_eval_expr tbl f p \<noteq> Inl OutOfFuel" if "2 * length p + 2 \<le> f"
  proof -
    from that obtain f' where f': "f = Suc f'" and b: "2 * length p + 1 \<le> f'"
      by (cases f) auto
    have a: "pp_eval_primary tbl f' p \<noteq> Inl OutOfFuel" using b by (intro A) auto
    have "pp_eval_loop tbl f' v r \<noteq> Inl OutOfFuel" if "pp_eval_primary tbl f' p = Inr (v, r)"
      for v r
      using pp_eval_primary_length [OF that] b by (intro B) auto
    with a show ?thesis
      unfolding f' by (auto split: sum.splits prod.splits)
  qed
  have D: "pp_eval_step tbl f g p \<noteq> Inl OutOfFuel" if "2 * length p + 2 \<le> f" "no_fuel_fault g"
  proof -
    from that obtain f' where f': "f = Suc f'" and b: "2 * length p + 1 \<le> f'"
      by (cases f) auto
    have a: "pp_eval_primary tbl f' p \<noteq> Inl OutOfFuel" using b by (intro A) auto
    have "pp_eval_loop tbl f' w r \<noteq> Inl OutOfFuel" if "pp_eval_primary tbl f' p = Inr (v, r)"
      for v r w
      using pp_eval_primary_length [OF that] b by (intro B) auto
    with a that(2) show ?thesis
      unfolding f' by (auto split: sum.splits prod.splits simp: no_fuel_fault_def)
  qed
  from A [of p f] B [of p f lv] C D show ?case by auto
qed

lemma pp_eval_expr_returns:
  "pp_eval_expr tbl (2 * length p + 2 + k) p \<noteq> Inl OutOfFuel"
  using pp_eval_fuel [of p "2 * length p + 2 + k" tbl] by simp


subsection \<open>What the evaluator computes\<close>

lemmas char_defs = cur_def is_digit_def is_alpha_def is_alnum_def is_ident_char_def is_blank_def
  skip_blanks_def starts_with_def is_int_suffix_def strtoll0_def digits_value_def digit_value_def
  is_hex_digit_def is_octal_digit_def scan_def strncmp_defined_def

lemmas ll_defs = ll_check_def ll_add_def ll_sub_def ll_mul_def ll_neg_def ll_div_def ll_mod_def
  LLONG_MIN_def LLONG_MAX_def trunc_div_def trunc_mod_def of_bool_ll_def

lemmas if_condition_defs = if_condition_def expand_macros_def expand_macros_r.simps char_defs
  ll_defs Let_def numeral_eq_Suc

text \<open>
  Claim C3 says that the evaluator of \<^verbatim>\<open>#if\<close> expressions applies the precedence and
  associativity of the main parser, so that \<^verbatim>\<open>1 + 2 * 3\<close> is 7 and \<^verbatim>\<open>&&\<close> binds
  tighter than \<^verbatim>\<open>||\<close>. The main parser does build \<^verbatim>\<open>1 + (2 * 3)\<close>, which folds to 7,
  and \<^verbatim>\<open>(0 && 0) || 1\<close>, which folds to 1. But \<^verbatim>\<open>pp_eval_expr\<close> has one loop for all
  binary operators and applies each to the value so far and the next primary: the
  condition \<^verbatim>\<open>1 + 2 * 3\<close> is \<open>(1 + 2) * 3 = 9\<close>. And when the left operand of \<^verbatim>\<open>&&\<close> is
  0, C's own short-circuit keeps \<^verbatim>\<open>pp_eval_primary\<close> from being called, so the right
  operand is not consumed and the loop stops in front of it: the condition
  \<^verbatim>\<open>0 && 0 || 1\<close> is 0. This holds in every environment, whatever lies behind the
  string in its buffer, and for every bound on the number of calls that is enough for
  the expression.
\<close>

theorem if_condition_flat_precedence:
  "if_condition env (6 + n) slack ''1 + 2 * 3'' = Inr 9 \<and>
   parse_binary_expr (6 + n) tokens_1_plus_2_times_3 4 = Some (tree_1_plus_2_times_3, []) \<and>
   try_eval_const (Some tree_1_plus_2_times_3) = Inr (Some 7) \<and>
   if_condition env (4 + n) slack ''0 && 0 || 1'' = Inr 0 \<and>
   parse_binary_expr (6 + n) tokens_0_and_0_or_1 4 = Some (tree_0_and_0_or_1, []) \<and>
   try_eval_const (Some tree_0_and_0_or_1) = Inr (Some 1)"
proof -
  have "if_condition env (6 + n) slack ''1 + 2 * 3'' = Inr 9"
    by (simp add: if_condition_defs)
  moreover have
    "parse_binary_expr (6 + n) tokens_1_plus_2_times_3 4 = Some (tree_1_plus_2_times_3, [])"
    by (simp add: tokens_1_plus_2_times_3_def tree_1_plus_2_times_3_def parse_defs Let_def
          numeral_eq_Suc type_usual_arith_int)
  moreover have "try_eval_const (Some tree_1_plus_2_times_3) = Inr (Some 7)"
    by (simp add: tree_1_plus_2_times_3_def fold_defs)
  moreover have "if_condition env (4 + n) slack ''0 && 0 || 1'' = Inr 0"
    by (simp add: if_condition_defs)
  moreover have
    "parse_binary_expr (6 + n) tokens_0_and_0_or_1 4 = Some (tree_0_and_0_or_1, [])"
    by (simp add: tokens_0_and_0_or_1_def tree_0_and_0_or_1_def parse_defs Let_def
          numeral_eq_Suc type_usual_arith_int)
  moreover have "try_eval_const (Some tree_0_and_0_or_1) = Inr (Some 1)"
    by (simp add: tree_0_and_0_or_1_def fold_defs)
  ultimately show ?thesis by blast
qed

text \<open>
  A quote that ends the expression: the character constant takes the terminator as its
  value, and the evaluator goes on behind it. With a NUL as the next byte of the block
  the condition is 0.
\<close>

lemma if_condition_quote_at_end:
  "if_condition env (2 + n) (CHR 0x00 # slack) [CHR 0x27] = Inr 0"
  by (simp add: if_condition_defs char_value_def)

text \<open>
  Claim C10 says that the evaluator is total: a division or modulo by 0 yields 0, and
  every expression has a value. The first half holds, the condition \<^verbatim>\<open>1/0\<close> is 0. But
  the guard \<^verbatim>\<open>r ? lhs / r : 0\<close> lets the quotient of \<^verbatim>\<open>LLONG_MIN\<close> by \<open>-1\<close> through,
  which overflows (the behaviour is undefined, and the division instruction of the
  usual targets traps): the condition \<^verbatim>\<open>-9223372036854775807-1/-1\<close>, evaluated from left
  to right, has no value. The evaluation itself always ends: on no buffer is a bound of
  twice its length plus two exhausted.
\<close>

theorem if_condition_division_overflow:
  "if_condition env (4 + n) slack ''1/0'' = Inr 0 \<and>
   if_condition env (8 + n) slack ''-9223372036854775807-1/-1'' = Inl DivisionOverflow \<and>
   pp_eval_expr tbl (2 * length p + 2 + k) p \<noteq> Inl OutOfFuel"
proof -
  have "if_condition env (4 + n) slack ''1/0'' = Inr 0"
    by (simp add: if_condition_defs)
  moreover have
    "if_condition env (8 + n) slack ''-9223372036854775807-1/-1'' = Inl DivisionOverflow"
    by (simp add: if_condition_defs)
  moreover have "pp_eval_expr tbl (2 * length p + 2 + k) p \<noteq> Inl OutOfFuel"
    by (rule pp_eval_expr_returns)
  ultimately show ?thesis by blast
qed

subsection \<open>What a variadic macro expands to\<close>

text \<open>
  The text after \<^verbatim>\<open>#define\<close> of a variadic macro, the table it leaves, and an
  environment with that table.
\<close>

definition log_define_text :: string where
  "log_define_text = '' LOG(fmt, ...) printf(fmt, __VA_ARGS__)''"

definition log_macros :: MacroTable where
  "log_macros =
     define_macro no_macros ''LOG'' ''printf(fmt, __VA_ARGS__)'' True [''fmt''] True"

definition log_env :: PPEnv where
  "log_env =
     \<lparr>macros = log_macros, filename = ''t.c'', line = 3, date_text = [], time_text = []\<rparr>"

lemma collect_args_log:
  "collect_args 64 ''s, 1, 2);'' (Suc 0) = ([''s'', ''1'', ''2''], '';'')"
  by (simp add: char_defs numeral_eq_Suc)

text \<open>
  Claim C4 says that every \<^verbatim>\<open>__VA_ARGS__\<close> of the body is replaced by the extra
  arguments and never reaches the output. The directive records the named parameter
  \<^verbatim>\<open>fmt\<close> and sets \<^verbatim>\<open>is_variadic\<close> for the ellipsis, which is no parameter. The
  substitution compares the length of the identifier with 12, and \<^verbatim>\<open>__VA_ARGS__\<close> has
  11 characters: the test fails, the identifier is no parameter either, and it is
  copied as it stands. \<^verbatim>\<open>LOG(s, 1, 2);\<close> becomes \<^verbatim>\<open>printf(s, __VA_ARGS__);\<close>, and the
  arguments 1 and 2 are lost.
\<close>

theorem expand_macros_va_args_literal:
  "define_directive (2 + n) no_macros log_define_text = Some (log_macros, [], 0) \<and>
   expand_macros log_env ''LOG(s, 1, 2);'' = ''printf(s, __VA_ARGS__);''"
proof -
  have "define_directive (2 + n) no_macros log_define_text = Some (log_macros, [], 0)"
    by (simp add: define_directive_def log_define_text_def pp_read_line_def char_defs
          is_eol_def is_line_continuation_def skip_line_continuation_def pp_read_ident_def
          trim_right_blanks_def Let_def numeral_eq_Suc log_macros_def)
  moreover have "expand_macros log_env ''LOG(s, 1, 2);'' = ''printf(s, __VA_ARGS__);''"
    by (simp add: expand_macros_def expand_macros_r.simps char_defs Let_def find_macro_def
          log_env_def log_macros_def define_macro_def no_macros_def macro_hash_def
          MACRO_TABLE_SIZE_def collect_args_log)
  ultimately show ?thesis by blast
qed

end
